theory Spec2Isabelle
  imports Complex_Main
begin

section \<open>Values, errors and the trajectory table\<close>

text \<open>
  The dashboard consists of \<^verbatim>\<open>src/plot.py\<close> (the function \<^verbatim>\<open>plot_trajectories\<close>) and
  \<^verbatim>\<open>src/app/main.py\<close> (widgets, the callback and the layout). Both build object graphs
  of the plotting toolkit. The model keeps those graphs as data: a figure is a record of
  the keyword arguments it was created with, the glyphs added to it and the range objects
  it refers to. Numerical series are never computed by the program itself; they are handed
  to the toolkit as expressions over the columns of the trajectory table, and the model
  keeps them as such expressions.
\<close>

datatype error =
    KeyError string
  | AttributeError string
  | IndexError
  | UnboundLocalError string
  | LibraryError string

definition bind_err :: "error + 'a \<Rightarrow> ('a \<Rightarrow> error + 'b) \<Rightarrow> error + 'b" where
  "bind_err m f = (case m of Inl e \<Rightarrow> Inl e | Inr x \<Rightarrow> f x)"

text \<open>Series expressions (\<^verbatim>\<open>df[name]\<close>, \<^verbatim>\<open>a - b\<close>, \<^verbatim>\<open>a + b\<close>, \<^verbatim>\<open>np.sqrt(a)\<close>,
  \<^verbatim>\<open>c / a\<close>) and the scalars read from them (\<^verbatim>\<open>.iloc[k]\<close>, \<^verbatim>\<open>.min()\<close>, \<^verbatim>\<open>.max()\<close>).\<close>

datatype series =
    DfCol string
  | Minus series series
  | Plus series series
  | NpSqrt series
  | ConstDiv real series

datatype scalar =
    Iloc series int
  | SeriesMin series
  | SeriesMax series

datatype ydata = Ser series | Sca scalar

text \<open>A formatted string keeps the rounded number symbolic: \<^verbatim>\<open>round(x, 2)\<close> inside an
  f-string is the fragment \<open>Rounded x 2\<close>.\<close>

datatype frag = Lit string | Rounded real nat

datatype pyval =
    PStr string
  | PInt int
  | PReal real
  | PNone
  | PFmt "frag list"
  | PPalette nat  \<comment> \<open>the entry of \<^verbatim>\<open>Dark2_5\<close> at this index\<close>

type_synonym kwargs = "(string \<times> pyval) list"

record dataframe =
  columns :: "string list"
  n_rows :: nat

record hgf =
  to_pandas :: dataframe
  model_type :: string
  surprise :: real

definition getitem :: "dataframe \<Rightarrow> string \<Rightarrow> error + series" where
  "getitem df name = (if name \<in> set (columns df) then Inr (DfCol name) else Inl (KeyError name))"

definition getattr :: "dataframe \<Rightarrow> string \<Rightarrow> error + series" where
  "getattr df name =
     (if name \<in> set (columns df) then Inr (DfCol name) else Inl (AttributeError name))"

definition iloc :: "dataframe \<Rightarrow> series \<Rightarrow> int \<Rightarrow> error + scalar" where
  "iloc df s k =
     (if - int (n_rows df) \<le> k \<and> k < int (n_rows df) then Inr (Iloc s k) else Inl IndexError)"

text \<open>\<^verbatim>\<open>columns.str.contains("_muhat").sum()\<close>: the number of column names that have
  \<^verbatim>\<open>_muhat\<close> as a substring.\<close>

fun starts_with :: "string \<Rightarrow> string \<Rightarrow> bool" where
  "starts_with s [] = True"
| "starts_with [] (p # ps) = False"
| "starts_with (c # cs) (p # ps) = (c = p \<and> starts_with cs ps)"

fun str_contains :: "string \<Rightarrow> string \<Rightarrow> bool" where
  "str_contains [] pat = starts_with [] pat"
| "str_contains (c # cs) pat = (starts_with (c # cs) pat \<or> str_contains cs pat)"

definition count_nodes :: "dataframe \<Rightarrow> nat" where
  "count_nodes df = length (filter (\<lambda>c. str_contains c ''_muhat'') (columns df))"

text \<open>Decimal rendering of a node index inside \<^verbatim>\<open>f"node_{i}_muhat"\<close>.\<close>

definition digit_char :: "nat \<Rightarrow> char" where
  "digit_char d = ''0123456789'' ! d"

function str_nat :: "nat \<Rightarrow> string" where
  "str_nat n = (if n < 10 then [digit_char n] else str_nat (n div 10) @ [digit_char (n mod 10)])"
  by pat_completeness auto
termination
  by (relation "measure id") auto

declare str_nat.simps [simp del]

definition node_col :: "nat \<Rightarrow> string \<Rightarrow> string" where
  "node_col i suffix = ''node_'' @ str_nat i @ ''_'' @ suffix"

section \<open>Range objects, glyphs and figures\<close>

text \<open>
  Range objects are shared between figures by reference, so they live in a store: a figure
  holds the address of its x range and of its y range. Creating a figure with an existing
  range object reuses the address; a pair of bounds or no argument allocates a new object.
\<close>

datatype range_obj = Range1d scalar scalar | DataRange1d

record heap =
  next_ref :: nat
  ranges :: "nat \<rightharpoonup> range_obj"

definition alloc :: "range_obj \<Rightarrow> heap \<Rightarrow> nat \<times> heap" where
  "alloc r h = (next_ref h, h\<lparr>next_ref := Suc (next_ref h), ranges := (ranges h)(next_ref h \<mapsto> r)\<rparr>)"

datatype range_arg = Shared nat | Bounds scalar scalar | NotGiven

definition new_range :: "range_arg \<Rightarrow> heap \<Rightarrow> nat \<times> heap" where
  "new_range a h =
     (case a of Shared r \<Rightarrow> (r, h)
      | Bounds lo hi \<Rightarrow> alloc (Range1d lo hi) h
      | NotGiven \<Rightarrow> alloc DataRange1d h)"

datatype glyph =
    Circle (gx: series) (gy: series) (gkw: kwargs)
  | Line (gx: series) (gy: series) (gkw: kwargs)
  | VArea (gx: series) (gy1: ydata) (gy2: ydata) (gkw: kwargs)

datatype axis = LinearAxis kwargs

datatype tool = RangeTool (tool_x_range: nat) (overlay: kwargs)

record figure =
  fig_kwargs :: kwargs
  x_range :: nat
  y_range :: nat
  extra_y_ranges :: "(string \<times> nat) list"
  renderers :: "glyph list"
  side_layouts :: "(axis \<times> string) list"
  tools :: "tool list"
  attrs :: kwargs
  active_multi :: "tool option"

definition new_figure :: "kwargs \<Rightarrow> range_arg \<Rightarrow> range_arg \<Rightarrow> heap \<Rightarrow> figure \<times> heap" where
  "new_figure kw xr yr h =
     (let (rx, h1) = new_range xr h;
          (ry, h2) = new_range yr h1
      in (\<lparr>fig_kwargs = kw, x_range = rx, y_range = ry, extra_y_ranges = [],
            renderers = [], side_layouts = [], tools = [], attrs = [],
            active_multi = None\<rparr>, h2))"

definition add_glyph :: "glyph \<Rightarrow> figure \<Rightarrow> figure" where
  "add_glyph g f = f\<lparr>renderers := renderers f @ [g]\<rparr>"

definition add_layout :: "axis \<Rightarrow> string \<Rightarrow> figure \<Rightarrow> figure" where
  "add_layout a side f = f\<lparr>side_layouts := side_layouts f @ [(a, side)]\<rparr>"

text \<open>Assigning \<^verbatim>\<open>extra_y_ranges['surprise']\<close> replaces an existing entry of that name.\<close>

definition set_extra_y_range :: "string \<Rightarrow> nat \<Rightarrow> figure \<Rightarrow> figure" where
  "set_extra_y_range name r f =
     f\<lparr>extra_y_ranges := filter (\<lambda>p. fst p \<noteq> name) (extra_y_ranges f) @ [(name, r)]\<rparr>"

datatype slider_id = S1 | S2 | S3 | S4

datatype node =
    Div kwargs
  | SliderW slider_id
  | Row "node list"
  | Column "node list" kwargs
  | Fig figure

section \<open>The plotting function\<close>

text \<open>
  \<^verbatim>\<open>plot_trajectories(hgf, ci, surprise, figsize, slider)\<close> of \<^verbatim>\<open>src/plot.py\<close>. The local
  variables that the loop updates are the fields of \<open>plot_state\<close>: the list \<^verbatim>\<open>cols\<close>,
  the name \<^verbatim>\<open>level_plot\<close> (unbound before the first iteration, hence an option), the
  number of colours already taken from the cycling palette, and the store of range objects.
\<close>

record plot_state =
  cols :: "figure list"
  level_plot :: "figure option"
  palette :: nat
  hp :: heap

definition py_int :: "real \<Rightarrow> int" where
  "py_int x = (if 0 \<le> x then \<lfloor>x\<rfloor> else \<lceil>x\<rceil>)"

text \<open>The conditional expression of line 68: the x range of the previous figure when
  \<^verbatim>\<open>cols\<close> is not empty, the pair of the first and last time stamp otherwise.\<close>

definition choose_x_range :: "dataframe \<Rightarrow> plot_state \<Rightarrow> error + range_arg" where
  "choose_x_range df st =
     (if length (cols st) \<noteq> 0 then
        (case level_plot st of
           None \<Rightarrow> Inl (UnboundLocalError ''level_plot'')
         | Some lp \<Rightarrow> Inr (Shared (x_range lp)))
      else
        bind_err (getattr df ''time'') (\<lambda>t0.
        bind_err (iloc df t0 0) (\<lambda>a.
        bind_err (getattr df ''time'') (\<lambda>t1.
        bind_err (iloc df t1 (- 1)) (\<lambda>b.
        Inr (Bounds a b))))))"

text \<open>Lines 73 to 94, the input node. The keyword arguments are recorded as written; what
  the toolkit makes of them is not part of this program.\<close>

definition input_node :: "hgf \<Rightarrow> nat \<Rightarrow> figure \<Rightarrow> error + figure" where
  "input_node h i lp =
     (let df = to_pandas h in
      if i = 1 then
        if model_type h = ''continuous'' then
          bind_err (getattr df ''time'') (\<lambda>t.
          bind_err (getattr df ''observation'') (\<lambda>obs.
          Inr (add_glyph (Circle t obs
                 [(''size'', PInt 2), (''legend_label'', PStr ''Input''),
                  (''fill_color'', PStr ''#2a2a2a''), (''line_color'', PStr ''#2a2a2a''),
                  (''alpha'', PReal 0.5)]) lp)))
        else if model_type h = ''binary'' then
          bind_err (getattr df ''time'') (\<lambda>t.
          bind_err (getattr df ''observation'') (\<lambda>obs.
          Inr (add_glyph (Circle t obs
                 [(''legend_label'', PStr ''Input''), (''fill_color'', PStr ''#4c72b0''),
                  (''line_color'', PStr ''grey''), (''alpha'', PReal 0.4),
                  (''edgecolors'', PStr ''k''), (''size'', PInt 10)]) lp)))
        else Inr lp
      else Inr lp)"

text \<open>Lines 99 to 104, the mean.\<close>

definition plot_mean :: "dataframe \<Rightarrow> series \<Rightarrow> pyval \<Rightarrow> figure \<Rightarrow> error + figure" where
  "plot_mean df mu color lp =
     bind_err (getattr df ''time'') (\<lambda>t.
     Inr (add_glyph (Line t mu [(''color'', color), (''line_width'', PReal 0.5)]) lp))"

text \<open>Lines 107 to 122, the standard deviation. In \<^verbatim>\<open>not (a) & (b)\<close> the operator
  \<^verbatim>\<open>&\<close> binds tighter than \<^verbatim>\<open>not\<close>.\<close>

definition plot_sd ::
  "hgf \<Rightarrow> bool \<Rightarrow> nat \<Rightarrow> series \<Rightarrow> pyval \<Rightarrow> figure \<times> heap \<Rightarrow> error + figure \<times> heap" where
  "plot_sd h ci i pihat color lph =
     (let df = to_pandas h; (lp, hp0) = lph in
      if ci then
        if \<not> (model_type h = ''binary'' \<and> i = 1) then
          let sd = NpSqrt (ConstDiv 1 pihat) in
          bind_err (getattr df ''time'') (\<lambda>t.
          bind_err (getitem df (node_col i ''muhat'')) (\<lambda>m1.
          bind_err (getitem df (node_col i ''muhat'')) (\<lambda>m2.
          let lp1 = add_glyph (VArea t (Ser (Minus m1 sd)) (Ser (Plus m2 sd))
                      [(''alpha'', PReal 0.4), (''color'', color)]) lp in
          bind_err (getitem df (node_col i ''muhat'')) (\<lambda>m3.
          bind_err (getitem df (node_col i ''muhat'')) (\<lambda>m4.
          let (r, hp1) = alloc (Range1d (SeriesMin (Minus m3 sd)) (SeriesMax (Plus m4 sd))) hp0
          in Inr (lp1\<lparr>y_range := r\<rparr>, hp1))))))
        else Inr (lp, hp0)
      else Inr (lp, hp0))"

text \<open>Lines 125 to 146, the surprise of the node on a second y range.\<close>

definition plot_surprise ::
  "hgf \<Rightarrow> bool \<Rightarrow> nat \<Rightarrow> figure \<times> heap \<Rightarrow> error + figure \<times> heap" where
  "plot_surprise h surprise_flag i lph =
     (let df = to_pandas h; (lp, hp0) = lph in
      if surprise_flag then
        bind_err (getitem df (node_col i ''surprise'')) (\<lambda>s1.
        bind_err (getitem df (node_col i ''surprise'')) (\<lambda>s2.
        let (r, hp1) = alloc (Range1d (SeriesMin s1) (SeriesMax s2)) hp0;
            lp1 = set_extra_y_range ''surprise'' r lp in
        bind_err (getattr df ''time'') (\<lambda>t.
        bind_err (getitem df (node_col i ''surprise'')) (\<lambda>s3.
        let lp2 = add_glyph (Line t s3
                    [(''color'', PStr ''#2a2a2a''), (''line_width'', PReal 0.5),
                     (''y_range_name'', PStr ''surprise'')]) lp1 in
        bind_err (getattr df ''time'') (\<lambda>t2.
        bind_err (getitem df (node_col i ''surprise'')) (\<lambda>s4.
        bind_err (getitem df (node_col i ''surprise'')) (\<lambda>s5.
        let lp3 = add_glyph (VArea t2 (Ser s4) (Sca (SeriesMin s5))
                    [(''color'', PStr ''#7f7f7f''), (''alpha'', PReal 0.2),
                     (''y_range_name'', PStr ''surprise'')]) lp2;
            ax2 = LinearAxis [(''y_range_name'', PStr ''surprise''),
                              (''axis_label'', PStr ''Surprise'')]
        in Inr (add_layout ax2 ''right'' lp3, hp1))))))))
      else Inr (lp, hp0))"

text \<open>One pass through the body of the loop, lines 53 to 148.\<close>

definition node_iteration ::
  "hgf \<Rightarrow> bool \<Rightarrow> bool \<Rightarrow> int \<Rightarrow> nat \<Rightarrow> plot_state \<Rightarrow> error + plot_state" where
  "node_iteration h ci surprise_flag figsize i st =
     (let df = to_pandas h;
          color = PPalette (palette st mod 5);
          st0 = st\<lparr>palette := Suc (palette st)\<rparr> in
      bind_err (getitem df (node_col i ''muhat'')) (\<lambda>mu.
      bind_err (getitem df (node_col i ''pihat'')) (\<lambda>pihat.
      bind_err (choose_x_range df st0) (\<lambda>xr.
      let (lp0, hp0) = new_figure
            [(''title'', PStr (''Node '' @ str_nat i)), (''sizing_mode'', PStr ''stretch_width''),
             (''height'', PInt figsize), (''x_axis_label'', PStr ''Time''),
             (''y_axis_label'', PStr ''Input''), (''output_backend'', PStr ''webgl'')]
            xr NotGiven (hp st0) in
      bind_err (input_node h i lp0) (\<lambda>lp1.
      bind_err (plot_mean df mu color lp1) (\<lambda>lp2.
      bind_err (plot_sd h ci i pihat color (lp2, hp0)) (\<lambda>lph3.
      bind_err (plot_surprise h surprise_flag i lph3) (\<lambda>(lp4, hp4).
      Inr (st0\<lparr>cols := cols st0 @ [lp4], level_plot := Some lp4, hp := hp4\<rparr>)))))))))"

text \<open>\<^verbatim>\<open>for i in range(n_nodes, 0, -1)\<close>: the index runs from \<open>n_nodes\<close> down to 1.\<close>

fun node_loop ::
  "hgf \<Rightarrow> bool \<Rightarrow> bool \<Rightarrow> int \<Rightarrow> nat \<Rightarrow> plot_state \<Rightarrow> error + plot_state" where
  "node_loop h ci surprise_flag figsize 0 st = Inr st"
| "node_loop h ci surprise_flag figsize (Suc k) st =
     bind_err (node_iteration h ci surprise_flag figsize (Suc k) st)
       (node_loop h ci surprise_flag figsize k)"

text \<open>Lines 152 to 174, the global surprise.\<close>

definition global_surprise :: "hgf \<Rightarrow> int \<Rightarrow> plot_state \<Rightarrow> error + figure \<times> plot_state" where
  "global_surprise h figsize st =
     (let df = to_pandas h in
      case level_plot st of
        None \<Rightarrow> Inl (UnboundLocalError ''level_plot'')
      | Some lp \<Rightarrow>
          let (sp0, hp1) = new_figure
                [(''title'', PFmt [Lit ''Global surprise: '', Rounded (surprise h) 2]),
                 (''sizing_mode'', PStr ''stretch_width''), (''height'', PInt figsize),
                 (''x_axis_label'', PStr ''Time''), (''y_axis_label'', PStr ''Surprise''),
                 (''output_backend'', PStr ''webgl'')]
                (Shared (x_range lp)) NotGiven (hp st) in
          bind_err (getattr df ''time'') (\<lambda>t.
          bind_err (getattr df ''surprise'') (\<lambda>s1.
          bind_err (getattr df ''surprise'') (\<lambda>s2.
          let sp1 = add_glyph (VArea t (Ser s1) (Sca (SeriesMin s2))
                      [(''color'', PStr ''#7f7f7f''), (''alpha'', PReal 0.2)]) sp0 in
          bind_err (getattr df ''time'') (\<lambda>t2.
          bind_err (getattr df ''surprise'') (\<lambda>s3.
          let sp2 = add_glyph (Line t2 s3
                      [(''color'', PStr ''#2a2a2a''), (''line_width'', PReal 0.5)]) sp1
          in Inr (sp2, st\<lparr>cols := cols st @ [sp2], hp := hp1\<rparr>)))))))"

text \<open>Lines 178 to 200, the strip with the range tool.\<close>

definition range_selector ::
  "hgf \<Rightarrow> int \<Rightarrow> figure \<Rightarrow> plot_state \<Rightarrow> error + plot_state" where
  "range_selector h figsize surprise_plot st =
     (let df = to_pandas h in
      case level_plot st of
        None \<Rightarrow> Inl (UnboundLocalError ''level_plot'')
      | Some lp \<Rightarrow>
          let (select0, hp1) = new_figure
                [(''title'', PStr ''Select the time range''), (''y_axis_type'', PNone),
                 (''height'', PInt (py_int (real_of_int figsize * 0.4))),
                 (''sizing_mode'', PStr ''stretch_width''), (''output_backend'', PStr ''webgl''),
                 (''tools'', PStr []), (''toolbar_location'', PNone),
                 (''background_fill_color'', PStr ''#efefef'')]
                NotGiven (Shared (y_range lp)) (hp st);
              range_tool = RangeTool (x_range surprise_plot)
                [(''fill_color'', PStr ''navy''), (''fill_alpha'', PReal 0.2)] in
          bind_err (getattr df ''time'') (\<lambda>t.
          bind_err (getattr df ''observation'') (\<lambda>obs.
          let select1 = add_glyph (Line t obs []) select0;
              select2 = select1\<lparr>attrs := attrs select1 @ [(''ygrid.grid_line_color'', PNone)]\<rparr>;
              select3 = select2\<lparr>tools := tools select2 @ [range_tool]\<rparr>;
              select4 = select3\<lparr>active_multi := Some range_tool\<rparr>
          in Inr (st\<lparr>cols := cols st @ [select4], hp := hp1\<rparr>))))"

definition plot_trajectories ::
  "hgf \<Rightarrow> bool \<Rightarrow> bool \<Rightarrow> int \<Rightarrow> bool \<Rightarrow> heap \<Rightarrow> error + node \<times> heap" where
  "plot_trajectories h ci surprise_flag figsize slider hp_in =
     (let trajectories_df = to_pandas h;
          n_nodes = count_nodes trajectories_df in
      bind_err (node_loop h ci surprise_flag figsize n_nodes
                  \<lparr>cols = [], level_plot = None, palette = 0, hp = hp_in\<rparr>) (\<lambda>st.
      bind_err (global_surprise h figsize st) (\<lambda>(surprise_plot, st1).
      bind_err (if slider then range_selector h figsize surprise_plot st1 else Inr st1) (\<lambda>st2.
      Inr (Column (map Fig (cols st2)) [(''sizing_mode'', PStr ''stretch_width'')], hp st2)))))"

section \<open>The application\<close>

text \<open>
  \<^verbatim>\<open>src/app/main.py\<close>. The statistical library is outside this program: its sample-data
  accessor, the model constructor and the fitting method are the three fields of
  \<open>library\<close>, and each may raise. The calls made to it are recorded in \<open>lib_calls\<close>, so
  that properties of the arguments the program passes can be stated.
\<close>

datatype callback = On_change

record slider_widget =
  s_start :: real
  s_end :: real
  s_value :: real
  s_step :: real
  s_title :: string
  s_callbacks :: "(string \<times> callback) list"

record dropdown_widget =
  d_label :: string
  d_menu :: "(string \<times> string) list"
  d_callbacks :: "(string \<times> callback) list"

record hgf_args =
  n_levels :: int
  arg_model_type :: string
  initial_mu :: "string \<rightharpoonup> real"
  initial_pi :: "string \<rightharpoonup> real"
  omega :: "string \<rightharpoonup> real"
  rho :: "string \<rightharpoonup> real"
  kappas :: "string \<rightharpoonup> real"
  verbose :: bool

record library =
  load_data :: "string \<Rightarrow> error + real list"
  HGF :: "hgf_args \<Rightarrow> error + hgf"
  input_data :: "hgf \<Rightarrow> real list \<Rightarrow> error + hgf"

datatype lib_call =
    Call_load_data string
  | Call_HGF hgf_args
  | Call_input_data "real list"

record world =
  store :: heap
  lib_calls :: "lib_call list"

text \<open>Lines 17 to 24, the widgets as they are created.\<close>

definition menu :: "(string \<times> string) list" where
  "menu = [(''Binary'', ''binary''), (''Continuous'', ''continuous'')]"

definition dropdown :: dropdown_widget where
  "dropdown = \<lparr>d_label = ''Model type'', d_menu = menu, d_callbacks = []\<rparr>"

definition slider1 :: slider_widget where
  "slider1 = \<lparr>s_start = - 20.0, s_end = 5.0, s_value = - 4, s_step = 0.1,
               s_title = ''Omega 1'', s_callbacks = []\<rparr>"

definition slider2 :: slider_widget where
  "slider2 = \<lparr>s_start = - 20.0, s_end = 5.0, s_value = - 4, s_step = 0.1,
               s_title = ''Omega 2'', s_callbacks = []\<rparr>"

definition slider3 :: slider_widget where
  "slider3 = \<lparr>s_start = - 20.0, s_end = 20.0, s_value = 1.04, s_step = 0.1,
               s_title = ''Mu 1'', s_callbacks = []\<rparr>"

definition slider4 :: slider_widget where
  "slider4 = \<lparr>s_start = - 20.0, s_end = 20.0, s_value = 0.0, s_step = 0.1,
               s_title = ''Mu 2'', s_callbacks = []\<rparr>"

text \<open>Lines 28 to 37. \<^verbatim>\<open>timeseries\<close> is the module-level name read by the function.\<close>

definition fit_hgf ::
  "library \<Rightarrow> real list \<Rightarrow> real \<Rightarrow> real \<Rightarrow> real \<Rightarrow> real \<Rightarrow> world \<Rightarrow> (error + node) \<times> world" where
  "fit_hgf lib timeseries omega1 omega2 mu1 mu2 w =
     (let args = \<lparr>n_levels = 2, arg_model_type = ''continuous'',
                   initial_mu = [''1'' \<mapsto> mu1, ''2'' \<mapsto> mu2],
                   initial_pi = [''1'' \<mapsto> 100, ''2'' \<mapsto> 10],
                   omega = [''1'' \<mapsto> omega1, ''2'' \<mapsto> omega2],
                   rho = [''1'' \<mapsto> 0.0, ''2'' \<mapsto> 0.0],
                   kappas = [''1'' \<mapsto> 1.0], verbose = False\<rparr>;
          w1 = w\<lparr>lib_calls := lib_calls w @ [Call_HGF args]\<rparr>
      in case HGF lib args of
           Inl e \<Rightarrow> (Inl e, w1)
         | Inr model \<Rightarrow>
             let w2 = w1\<lparr>lib_calls := lib_calls w1 @ [Call_input_data timeseries]\<rparr>
             in case input_data lib model timeseries of
                  Inl e \<Rightarrow> (Inl e, w2)
                | Inr fitted \<Rightarrow>
                    (case plot_trajectories fitted True True 200 True (store w2) of
                       Inl e \<Rightarrow> (Inl e, w2)
                     | Inr (col, hp') \<Rightarrow> (Inr col, w2\<lparr>store := hp'\<rparr>)))"

text \<open>
  The state of the running application: the module-level names and the document. The
  sliders are objects that the layout refers to (\<open>SliderW\<close>), so they are kept apart from
  the layout tree. The root of the document is the object named \<^verbatim>\<open>layout\<close>.
\<close>

record app =
  timeseries :: "real list"
  dropdown_state :: dropdown_widget
  sliders :: "slider_id \<Rightarrow> slider_widget"
  layout :: node
  doc_title :: string
  world :: world

definition document_roots :: "app \<Rightarrow> node list" where
  "document_roots st = [layout st]"

text \<open>Lines 40 and 41. The right-hand side is evaluated before the element is assigned.\<close>

definition on_change :: "library \<Rightarrow> string \<Rightarrow> pyval \<Rightarrow> pyval \<Rightarrow> app \<Rightarrow> (error + unit) \<times> app" where
  "on_change lib attrname old new st =
     (case fit_hgf lib (timeseries st) (s_value (sliders st S1)) (s_value (sliders st S2))
             (s_value (sliders st S3)) (s_value (sliders st S4)) (world st) of
        (Inl e, w) \<Rightarrow> (Inl e, st\<lparr>world := w\<rparr>)
      | (Inr col, w) \<Rightarrow>
          (case layout st of
             Column children kw \<Rightarrow>
               if 2 < length children
               then (Inr (), st\<lparr>world := w, layout := Column (children[2 := col]) kw\<rparr>)
               else (Inl IndexError, st\<lparr>world := w\<rparr>)
           | Row children \<Rightarrow>
               if 2 < length children
               then (Inr (), st\<lparr>world := w, layout := Row (children[2 := col])\<rparr>)
               else (Inl IndexError, st\<lparr>world := w\<rparr>)
           | _ \<Rightarrow> (Inl (AttributeError ''children''), st\<lparr>world := w\<rparr>)))"

text \<open>
  The event model of the toolkit: setting a property to a different value stores the value
  and then calls, in the order of registration, the callbacks registered for that property
  with the property name, the old and the new value; an exception of a callback ends the
  dispatch. A click on a menu item of the dropdown calls the callbacks registered on the
  dropdown.
\<close>

fun run_callback ::
  "library \<Rightarrow> callback \<Rightarrow> string \<Rightarrow> pyval \<Rightarrow> pyval \<Rightarrow> app \<Rightarrow> (error + unit) \<times> app" where
  "run_callback lib On_change attrname old new st = on_change lib attrname old new st"

fun run_callbacks ::
  "library \<Rightarrow> callback list \<Rightarrow> string \<Rightarrow> pyval \<Rightarrow> pyval \<Rightarrow> app \<Rightarrow> (error + unit) \<times> app" where
  "run_callbacks lib [] attrname old new st = (Inr (), st)"
| "run_callbacks lib (c # cs) attrname old new st =
     (case run_callback lib c attrname old new st of
        (Inl e, st') \<Rightarrow> (Inl e, st')
      | (Inr u, st') \<Rightarrow> run_callbacks lib cs attrname old new st')"

definition callbacks_for :: "string \<Rightarrow> (string \<times> callback) list \<Rightarrow> callback list" where
  "callbacks_for attrname cbs = map snd (filter (\<lambda>p. fst p = attrname) cbs)"

definition set_slider_value ::
  "library \<Rightarrow> slider_id \<Rightarrow> real \<Rightarrow> app \<Rightarrow> (error + unit) \<times> app" where
  "set_slider_value lib sid v st =
     (let w = sliders st sid; old = s_value w in
      if v = old then (Inr (), st)
      else run_callbacks lib (callbacks_for ''value'' (s_callbacks w)) ''value''
             (PReal old) (PReal v) (st\<lparr>sliders := (sliders st)(sid := w\<lparr>s_value := v\<rparr>)\<rparr>))"

definition click_dropdown :: "library \<Rightarrow> string \<Rightarrow> app \<Rightarrow> (error + unit) \<times> app" where
  "click_dropdown lib item st =
     run_callbacks lib (callbacks_for ''menu_item_click'' (d_callbacks (dropdown_state st)))
       ''menu_item_click'' PNone (PStr item) st"

datatype event = SliderMoved slider_id real | DropdownClicked string

definition handle_event :: "library \<Rightarrow> event \<Rightarrow> app \<Rightarrow> (error + unit) \<times> app" where
  "handle_event lib ev st =
     (case ev of
        SliderMoved sid v \<Rightarrow> set_slider_value lib sid v st
      | DropdownClicked item \<Rightarrow> click_dropdown lib item st)"

text \<open>The server reports an exception of a callback and goes on with the next event.\<close>

fun run_events :: "library \<Rightarrow> event list \<Rightarrow> app \<Rightarrow> app" where
  "run_events lib [] st = st"
| "run_events lib (ev # evs) st = run_events lib evs (snd (handle_event lib ev st))"

text \<open>Lines 43 to 46: \<^verbatim>\<open>slider.on_change('value', on_change)\<close>.\<close>

definition register_on_change :: "string \<Rightarrow> callback \<Rightarrow> slider_widget \<Rightarrow> slider_widget" where
  "register_on_change attrname cb w = w\<lparr>s_callbacks := s_callbacks w @ [(attrname, cb)]\<rparr>"

text \<open>Lines 51 to 63, the title and the widget rows.\<close>

definition div_widget :: node where
  "div_widget = Div [(''text'', PStr ([CHR 0x0A] @ ''        <h1>The Hierarchical Gaussian Filter</h1>''
                              @ [CHR 0x0A] @ ''        '')),
              (''width'', PInt 900), (''height'', PInt 60)]"

definition widgets :: node where
  "widgets = Column [Row [SliderW S1, SliderW S2], Row [SliderW S3, SliderW S4]] []"

text \<open>The slider object behind each of the four module-level names.\<close>

definition created_slider :: "slider_id \<Rightarrow> slider_widget" where
  "created_slider sid = (case sid of S1 \<Rightarrow> slider1 | S2 \<Rightarrow> slider2 | S3 \<Rightarrow> slider3 | S4 \<Rightarrow> slider4)"

text \<open>The module body, run once when the application starts. An exception of the first
  fit ends it.\<close>

definition startup :: "library \<Rightarrow> error + app" where
  "startup lib =
     bind_err (load_data lib ''continuous'') (\<lambda>ts.
     let w0 = \<lparr>store = \<lparr>next_ref = 0, ranges = Map.empty\<rparr>,
               lib_calls = [Call_load_data ''continuous'']\<rparr>;
         sl = (\<lambda>sid. register_on_change ''value'' On_change (created_slider sid));
         app_title = div_widget
     in case fit_hgf lib ts (s_value (sl S1)) (s_value (sl S2)) (s_value (sl S3))
               (s_value (sl S4)) w0 of
          (Inl e, w) \<Rightarrow> Inl e
        | (Inr col, w) \<Rightarrow>
            Inr \<lparr>timeseries = ts, dropdown_state = dropdown, sliders = sl,
                 layout = Column [app_title, widgets, col] [],
                 doc_title = ''The Hierarchical Gaussian Filter'', world = w\<rparr>)"

section \<open>Vocabulary for the properties\<close>

text \<open>
  The glyphs, keyword arguments and range objects that the sections of
  \<^verbatim>\<open>plot_trajectories\<close> produce, named so that the lemmas below can state what a successful
  call has built; predicates on results (\<open>returns\<close>, \<open>bound_ok\<close>), on the store
  (\<open>heap_ext\<close>: every object of the first store is unchanged in the second), on the
  trajectory table (\<open>well_formed\<close>) and on the state of the application (\<open>app_inv\<close>);
  and a small fitted model used as a concrete input.
\<close>

definition input_glyphs :: "hgf \<Rightarrow> nat \<Rightarrow> glyph list" where
  "input_glyphs h i =
     (if i = 1 \<and> model_type h = ''continuous'' then
        [Circle (DfCol ''time'') (DfCol ''observation'')
           [(''size'', PInt 2), (''legend_label'', PStr ''Input''),
            (''fill_color'', PStr ''#2a2a2a''), (''line_color'', PStr ''#2a2a2a''),
            (''alpha'', PReal 0.5)]]
      else if i = 1 \<and> model_type h = ''binary'' then
        [Circle (DfCol ''time'') (DfCol ''observation'')
           [(''legend_label'', PStr ''Input''), (''fill_color'', PStr ''#4c72b0''),
            (''line_color'', PStr ''grey''), (''alpha'', PReal 0.4),
            (''edgecolors'', PStr ''k''), (''size'', PInt 10)]]
      else [])"

definition band :: "nat \<Rightarrow> pyval \<Rightarrow> glyph" where
  "band i color =
     VArea (DfCol ''time'')
       (Ser (Minus (DfCol (node_col i ''muhat'')) (NpSqrt (ConstDiv 1 (DfCol (node_col i ''pihat''))))))
       (Ser (Plus (DfCol (node_col i ''muhat'')) (NpSqrt (ConstDiv 1 (DfCol (node_col i ''pihat''))))))
       [(''alpha'', PReal 0.4), (''color'', color)]"

definition band_range :: "nat \<Rightarrow> range_obj" where
  "band_range i =
     Range1d
       (SeriesMin (Minus (DfCol (node_col i ''muhat'')) (NpSqrt (ConstDiv 1 (DfCol (node_col i ''pihat''))))))
       (SeriesMax (Plus (DfCol (node_col i ''muhat'')) (NpSqrt (ConstDiv 1 (DfCol (node_col i ''pihat''))))))"

definition shows_band :: "hgf \<Rightarrow> bool \<Rightarrow> nat \<Rightarrow> bool" where
  "shows_band h ci i = (ci \<and> \<not> (model_type h = ''binary'' \<and> i = 1))"

definition surprise_range :: "nat \<Rightarrow> range_obj" where
  "surprise_range i =
     Range1d (SeriesMin (DfCol (node_col i ''surprise''))) (SeriesMax (DfCol (node_col i ''surprise'')))"

definition surprise_line :: "nat \<Rightarrow> glyph" where
  "surprise_line i =
     Line (DfCol ''time'') (DfCol (node_col i ''surprise''))
       [(''color'', PStr ''#2a2a2a''), (''line_width'', PReal 0.5),
        (''y_range_name'', PStr ''surprise'')]"

definition surprise_area :: "nat \<Rightarrow> glyph" where
  "surprise_area i =
     VArea (DfCol ''time'') (Ser (DfCol (node_col i ''surprise'')))
       (Sca (SeriesMin (DfCol (node_col i ''surprise''))))
       [(''color'', PStr ''#7f7f7f''), (''alpha'', PReal 0.2),
        (''y_range_name'', PStr ''surprise'')]"

definition surprise_axis :: axis where
  "surprise_axis = LinearAxis [(''y_range_name'', PStr ''surprise''), (''axis_label'', PStr ''Surprise'')]"

definition node_kwargs :: "int \<Rightarrow> nat \<Rightarrow> kwargs" where
  "node_kwargs figsize i =
     [(''title'', PStr (''Node '' @ str_nat i)), (''sizing_mode'', PStr ''stretch_width''),
      (''height'', PInt figsize), (''x_axis_label'', PStr ''Time''),
      (''y_axis_label'', PStr ''Input''), (''output_backend'', PStr ''webgl'')]"

definition heap_ext :: "heap \<Rightarrow> heap \<Rightarrow> bool" where
  "heap_ext h h' = (next_ref h \<le> next_ref h' \<and> (\<forall>r<next_ref h. ranges h' r = ranges h r))"

definition mean_line :: "nat \<Rightarrow> pyval \<Rightarrow> glyph" where
  "mean_line i color =
     Line (DfCol ''time'') (DfCol (node_col i ''muhat''))
       [(''color'', color), (''line_width'', PReal 0.5)]"

definition node_renderers :: "hgf \<Rightarrow> bool \<Rightarrow> bool \<Rightarrow> nat \<Rightarrow> pyval \<Rightarrow> glyph list" where
  "node_renderers h ci sf i color =
     input_glyphs h i @ [mean_line i color] @ (if shows_band h ci i then [band i color] else [])
       @ (if sf then [surprise_line i, surprise_area i] else [])"

definition node_fig_ok :: "hgf \<Rightarrow> bool \<Rightarrow> bool \<Rightarrow> int \<Rightarrow> nat \<Rightarrow> nat \<Rightarrow> heap \<Rightarrow> figure \<Rightarrow> bool" where
  "node_fig_ok h ci sf fs i p hpf f =
     (fig_kwargs f = node_kwargs fs i \<and>
      renderers f = node_renderers h ci sf i (PPalette (p mod 5)) \<and>
      ranges hpf (y_range f) = Some (if shows_band h ci i then band_range i else DataRange1d) \<and>
      y_range f < next_ref hpf \<and>
      side_layouts f = (if sf then [(surprise_axis, ''right'')] else []) \<and>
      (if sf then \<exists>r<next_ref hpf. extra_y_ranges f = [(''surprise'', r)] \<and>
                    ranges hpf r = Some (surprise_range i)
       else extra_y_ranges f = []) \<and>
      tools f = [])"

definition first_x_range :: range_obj where
  "first_x_range = Range1d (Iloc (DfCol ''time'') 0) (Iloc (DfCol ''time'') (- 1))"

definition loop_x_range :: "plot_state \<Rightarrow> nat" where
  "loop_x_range st = (if cols st = [] then next_ref (hp st) else x_range (the (level_plot st)))"

definition surprise_kwargs :: "hgf \<Rightarrow> int \<Rightarrow> kwargs" where
  "surprise_kwargs h figsize =
     [(''title'', PFmt [Lit ''Global surprise: '', Rounded (surprise h) 2]),
      (''sizing_mode'', PStr ''stretch_width''), (''height'', PInt figsize),
      (''x_axis_label'', PStr ''Time''), (''y_axis_label'', PStr ''Surprise''),
      (''output_backend'', PStr ''webgl'')]"

definition surprise_fig_ok :: "hgf \<Rightarrow> int \<Rightarrow> nat \<Rightarrow> figure \<Rightarrow> bool" where
  "surprise_fig_ok h figsize xr sp =
     (fig_kwargs sp = surprise_kwargs h figsize \<and> x_range sp = xr \<and>
      renderers sp =
        [VArea (DfCol ''time'') (Ser (DfCol ''surprise'')) (Sca (SeriesMin (DfCol ''surprise'')))
           [(''color'', PStr ''#7f7f7f''), (''alpha'', PReal 0.2)],
         Line (DfCol ''time'') (DfCol ''surprise'')
           [(''color'', PStr ''#2a2a2a''), (''line_width'', PReal 0.5)]] \<and>
      extra_y_ranges sp = [] \<and> side_layouts sp = [] \<and> tools sp = [])"

definition select_kwargs :: "int \<Rightarrow> kwargs" where
  "select_kwargs figsize =
     [(''title'', PStr ''Select the time range''), (''y_axis_type'', PNone),
      (''height'', PInt (py_int (real_of_int figsize * 0.4))),
      (''sizing_mode'', PStr ''stretch_width''), (''output_backend'', PStr ''webgl''),
      (''tools'', PStr []), (''toolbar_location'', PNone),
      (''background_fill_color'', PStr ''#efefef'')]"

definition the_range_tool :: "nat \<Rightarrow> tool" where
  "the_range_tool xr = RangeTool xr [(''fill_color'', PStr ''navy''), (''fill_alpha'', PReal 0.2)]"

definition selector_ok :: "int \<Rightarrow> nat \<Rightarrow> nat \<Rightarrow> figure \<Rightarrow> bool" where
  "selector_ok figsize xr yr sel =
     (fig_kwargs sel = select_kwargs figsize \<and> y_range sel = yr \<and>
      renderers sel = [Line (DfCol ''time'') (DfCol ''observation'') []] \<and>
      tools sel = [the_range_tool xr] \<and> active_multi sel = Some (the_range_tool xr) \<and>
      attrs sel = [(''ygrid.grid_line_color'', PNone)] \<and>
      extra_y_ranges sel = [] \<and> side_layouts sel = [])"

definition column_kwargs :: kwargs where
  "column_kwargs = [(''sizing_mode'', PStr ''stretch_width'')]"

definition bound_ok :: "error + 'a \<Rightarrow> bool" where
  "bound_ok r = (\<forall>x. r \<noteq> Inl (UnboundLocalError x))"

definition node_columns_present :: "dataframe \<Rightarrow> nat \<Rightarrow> bool" where
  "node_columns_present df i =
     (node_col i ''muhat'' \<in> set (columns df) \<and> node_col i ''pihat'' \<in> set (columns df) \<and>
      node_col i ''surprise'' \<in> set (columns df))"

definition well_formed :: "hgf \<Rightarrow> bool" where
  "well_formed h =
     (let df = to_pandas h in
      ''time'' \<in> set (columns df) \<and> ''observation'' \<in> set (columns df) \<and>
      ''surprise'' \<in> set (columns df) \<and> 0 < n_rows df \<and> 0 < count_nodes df \<and>
      list_all (node_columns_present df) [1..<Suc (count_nodes df)])"

definition returns :: "error + 'a \<Rightarrow> bool" where
  "returns r = (\<exists>x. r = Inr x)"

definition two_node_hgf :: hgf where
  "two_node_hgf = \<lparr>to_pandas = \<lparr>columns = [''time'', ''observation'', ''node_1_muhat'', ''node_1_pihat'', ''node_1_surprise'',
      ''node_2_muhat'', ''node_2_pihat'', ''node_2_surprise'', ''surprise''], n_rows = 3\<rparr>,
      model_type = ''continuous'', surprise = 12.5\<rparr>"

definition chart_figures :: "node \<Rightarrow> figure list" where
  "chart_figures c = (case c of Column ch kw \<Rightarrow> concat (map (\<lambda>n. case n of Fig f \<Rightarrow> [f] | _ \<Rightarrow> []) ch) | _ \<Rightarrow> [])"

definition plotted_figures :: "hgf \<Rightarrow> bool \<Rightarrow> bool \<Rightarrow> int \<Rightarrow> bool \<Rightarrow> heap \<Rightarrow> figure list" where
  "plotted_figures h ci sf fs sl hp0 =
     (case plot_trajectories h ci sf fs sl hp0 of Inl e \<Rightarrow> [] | Inr (col, hp') \<Rightarrow> chart_figures col)"

definition empty_heap :: heap where
  "empty_heap = \<lparr>next_ref = 0, ranges = Map.empty\<rparr>"

definition fit_args :: "real \<Rightarrow> real \<Rightarrow> real \<Rightarrow> real \<Rightarrow> hgf_args" where
  "fit_args omega1 omega2 mu1 mu2 =
     \<lparr>n_levels = 2, arg_model_type = ''continuous'',
      initial_mu = [''1'' \<mapsto> mu1, ''2'' \<mapsto> mu2],
      initial_pi = [''1'' \<mapsto> 100, ''2'' \<mapsto> 10],
      omega = [''1'' \<mapsto> omega1, ''2'' \<mapsto> omega2],
      rho = [''1'' \<mapsto> 0, ''2'' \<mapsto> 0],
      kappas = [''1'' \<mapsto> 1], verbose = False\<rparr>"

definition current_args :: "app \<Rightarrow> hgf_args" where
  "current_args st =
     fit_args (s_value (sliders st S1)) (s_value (sliders st S2))
       (s_value (sliders st S3)) (s_value (sliders st S4))"

definition registered :: "slider_id \<Rightarrow> slider_widget" where
  "registered sid = register_on_change ''value'' On_change (created_slider sid)"

definition later_call_ok :: "real list \<Rightarrow> lib_call \<Rightarrow> bool" where
  "later_call_ok ts c =
     (case c of
        Call_load_data name \<Rightarrow> False
      | Call_HGF a \<Rightarrow> (\<exists>o1 o2 m1 m2. a = fit_args o1 o2 m1 m2)
      | Call_input_data d \<Rightarrow> d = ts)"

definition app_inv :: "library \<Rightarrow> app \<Rightarrow> bool" where
  "app_inv lib st =
     (load_data lib ''continuous'' = Inr (timeseries st) \<and>
      dropdown_state st = dropdown \<and>
      doc_title st = ''The Hierarchical Gaussian Filter'' \<and>
      (\<forall>sid. sliders st sid = (registered sid)\<lparr>s_value := s_value (sliders st sid)\<rparr>) \<and>
      (\<exists>col fitted hp0 hp'. layout st = Column [div_widget, widgets, col] [] \<and>
          plot_trajectories fitted True True 200 True hp0 = Inr (col, hp')) \<and>
      (\<exists>rest. lib_calls (world st) = Call_load_data ''continuous'' # rest \<and>
          list_all (later_call_ok (timeseries st)) rest))"

definition fit_now :: "library \<Rightarrow> app \<Rightarrow> (error + node) \<times> world" where
  "fit_now lib st =
     fit_hgf lib (timeseries st) (s_value (sliders st S1)) (s_value (sliders st S2))
       (s_value (sliders st S3)) (s_value (sliders st S4)) (world st)"

definition moved :: "slider_id \<Rightarrow> real \<Rightarrow> app \<Rightarrow> app" where
  "moved sid v st = st\<lparr>sliders := (sliders st)(sid := (sliders st sid)\<lparr>s_value := v\<rparr>)\<rparr>"



definition title_of :: "figure \<Rightarrow> pyval option" where
  "title_of f = map_of (fig_kwargs f) ''title''"

definition glyph_ys :: "glyph \<Rightarrow> ydata list" where
  "glyph_ys g =
     (case g of Circle x y kw \<Rightarrow> [Ser y] | Line x y kw \<Rightarrow> [Ser y] | VArea x y1 y2 kw \<Rightarrow> [y1, y2])"

definition draws_observation :: "figure \<Rightarrow> bool" where
  "draws_observation f =
     list_ex (\<lambda>g. Ser (DfCol ''observation'') \<in> set (glyph_ys g)) (renderers f)"


text \<open>A library used as a concrete input: it has three observations, rejects the value 5
  for the first omega, and otherwise returns a fitted model with two nodes.\<close>

definition demo_lib :: library where
  "demo_lib =
     \<lparr>load_data = (\<lambda>name. if name = ''continuous'' then Inr [1, 2, 3]
                            else Inl (LibraryError ''unknown data set'')),
      HGF = (\<lambda>args. if omega args ''1'' = Some 5 then Inl (LibraryError ''invalid parameters'')
                     else Inr \<lparr>to_pandas = \<lparr>columns = [], n_rows = 0\<rparr>,
                               model_type = arg_model_type args, surprise = 0\<rparr>),
      input_data = (\<lambda>model ts. Inr (model\<lparr>to_pandas := to_pandas two_node_hgf,
                                               surprise := 12.5\<rparr>))\<rparr>"

definition demo_app :: app where
  "demo_app = projr (startup demo_lib)"

definition misnamed_hgf :: hgf where
  "misnamed_hgf =
     \<lparr>to_pandas = \<lparr>columns = [''time'', ''observation'', ''x_muhat'', ''surprise''], n_rows = 3\<rparr>,
      model_type = ''continuous'', surprise = 0\<rparr>"

definition no_data_lib :: library where
  "no_data_lib = demo_lib\<lparr>load_data := (\<lambda>name. Inl (LibraryError ''no data''))\<rparr>"

section \<open>What a successful call of the plotting function has built\<close>

lemma bind_err_Inl [simp]: "bind_err (Inl e) f = Inl e"
  by (simp add: bind_err_def)

lemma bind_err_Inr [simp]: "bind_err (Inr x) f = f x"
  by (simp add: bind_err_def)

lemma bind_err_eq_Inr: "bind_err m f = Inr y \<longleftrightarrow> (\<exists>x. m = Inr x \<and> f x = Inr y)"
  by (cases m) auto

lemma getitem_eq_Inr: "getitem df name = Inr s \<longleftrightarrow> name \<in> set (columns df) \<and> s = DfCol name"
  by (auto simp: getitem_def)

lemma getattr_eq_Inr: "getattr df name = Inr s \<longleftrightarrow> name \<in> set (columns df) \<and> s = DfCol name"
  by (auto simp: getattr_def)

lemma iloc_eq_Inr:
  "iloc df s k = Inr v \<longleftrightarrow> - int (n_rows df) \<le> k \<and> k < int (n_rows df) \<and> v = Iloc s k"
  by (auto simp: iloc_def)

lemmas eq_Inr = bind_err_eq_Inr getitem_eq_Inr getattr_eq_Inr iloc_eq_Inr

lemma input_node_Inr:
  assumes "input_node h i lp = Inr lp'"
  shows "lp' = lp\<lparr>renderers := renderers lp @ input_glyphs h i\<rparr>"
  using assms
  by (auto simp: input_node_def input_glyphs_def add_glyph_def eq_Inr Let_def split: if_splits)

lemma plot_mean_Inr:
  assumes "plot_mean df mu color lp = Inr lp'"
  shows "lp' = lp\<lparr>renderers := renderers lp @
           [Line (DfCol ''time'') mu [(''color'', color), (''line_width'', PReal 0.5)]]\<rparr>"
  using assms by (auto simp: plot_mean_def add_glyph_def eq_Inr)

lemma plot_sd_Inr:
  assumes "plot_sd h ci i (DfCol (node_col i ''pihat'')) color (lp, hp0) = Inr (lp', hp')"
  shows "if shows_band h ci i
         then lp' = lp\<lparr>renderers := renderers lp @ [band i color], y_range := next_ref hp0\<rparr> \<and>
              hp' = snd (alloc (band_range i) hp0)
         else lp' = lp \<and> hp' = hp0"
  using assms
  by (auto simp: plot_sd_def shows_band_def band_def band_range_def add_glyph_def alloc_def eq_Inr Let_def
           split: if_splits)

lemma plot_surprise_Inr:
  assumes "plot_surprise h sf i (lp, hp0) = Inr (lp', hp')"
  shows "if sf
         then lp' = lp\<lparr>renderers := renderers lp @ [surprise_line i, surprise_area i],
                       extra_y_ranges := filter (\<lambda>p. fst p \<noteq> ''surprise'') (extra_y_ranges lp)
                                           @ [(''surprise'', next_ref hp0)],
                       side_layouts := side_layouts lp @ [(surprise_axis, ''right'')]\<rparr> \<and>
              hp' = snd (alloc (surprise_range i) hp0)
         else lp' = lp \<and> hp' = hp0"
  using assms
  by (auto simp: plot_surprise_def surprise_line_def surprise_area_def surprise_axis_def
        surprise_range_def add_glyph_def add_layout_def set_extra_y_range_def alloc_def eq_Inr Let_def
           split: if_splits)

lemma heap_ext_refl [simp]: "heap_ext h h"
  by (simp add: heap_ext_def)

lemma heap_ext_trans: "heap_ext a b \<Longrightarrow> heap_ext b c \<Longrightarrow> heap_ext a c"
  by (auto simp: heap_ext_def)

lemma heap_ext_alloc: "heap_ext h (snd (alloc r h))"
  by (simp add: heap_ext_def alloc_def)

lemma choose_x_range_Inr:
  assumes "choose_x_range df st = Inr xr"
  shows "xr = (if cols st = [] then Bounds (Iloc (DfCol ''time'') 0) (Iloc (DfCol ''time'') (- 1))
               else Shared (x_range (the (level_plot st))))"
  using assms by (auto simp: choose_x_range_def eq_Inr split: if_splits option.splits)

lemma new_figure_node:
  "new_figure kw xr NotGiven h0 = (lp0, hp0) \<Longrightarrow>
     fig_kwargs lp0 = kw \<and> renderers lp0 = [] \<and> side_layouts lp0 = [] \<and> extra_y_ranges lp0 = [] \<and>
     tools lp0 = [] \<and> attrs lp0 = [] \<and> active_multi lp0 = None \<and>
     x_range lp0 = (case xr of Shared r \<Rightarrow> r | _ \<Rightarrow> next_ref h0) \<and>
     y_range lp0 = (case xr of Shared r \<Rightarrow> next_ref h0 | _ \<Rightarrow> Suc (next_ref h0)) \<and>
     next_ref hp0 = Suc (y_range lp0) \<and>
     ranges hp0 = (case xr of Shared r \<Rightarrow> (ranges h0)(next_ref h0 \<mapsto> DataRange1d)
                   | Bounds lo hi \<Rightarrow> (ranges h0)(next_ref h0 \<mapsto> Range1d lo hi,
                                                   Suc (next_ref h0) \<mapsto> DataRange1d)
                   | NotGiven \<Rightarrow> (ranges h0)(next_ref h0 \<mapsto> DataRange1d,
                                                   Suc (next_ref h0) \<mapsto> DataRange1d))"
  by (cases xr) (auto simp: new_figure_def new_range_def alloc_def Let_def)

lemma node_iteration_Inr:
  assumes "node_iteration h ci sf fs i st = Inr st'"
  shows "\<exists>f. st' = st\<lparr>palette := Suc (palette st), cols := cols st @ [f],
                        level_plot := Some f, hp := hp st'\<rparr> \<and>
             fig_kwargs f = node_kwargs fs i \<and>
             renderers f = node_renderers h ci sf i (PPalette (palette st mod 5)) \<and>
             x_range f = (if cols st = [] then next_ref (hp st) else x_range (the (level_plot st))) \<and>
             (cols st = [] \<longrightarrow> ranges (hp st') (x_range f)
                 = Some (Range1d (Iloc (DfCol ''time'') 0) (Iloc (DfCol ''time'') (- 1)))) \<and>
             ranges (hp st') (y_range f) = Some (if shows_band h ci i then band_range i else DataRange1d) \<and>
             y_range f < next_ref (hp st') \<and>
             (cols st = [] \<longrightarrow> x_range f < next_ref (hp st')) \<and>
             side_layouts f = (if sf then [(surprise_axis, ''right'')] else []) \<and>
             (if sf then \<exists>r<next_ref (hp st'). extra_y_ranges f = [(''surprise'', r)] \<and>
                       ranges (hp st') r = Some (surprise_range i)
              else extra_y_ranges f = []) \<and>
             tools f = [] \<and> heap_ext (hp st) (hp st')"
proof -
  let ?df = "to_pandas h"
  let ?color = "PPalette (palette st mod 5)"
  let ?st0 = "st\<lparr>palette := Suc (palette st)\<rparr>"
  from assms obtain xr lp1 lp2 lp3 hp3 lp4 hp4 where
    xr: "choose_x_range ?df ?st0 = Inr xr" and
    inp: "input_node h i (fst (new_figure (node_kwargs fs i) xr NotGiven (hp st))) = Inr lp1" and
    mean: "plot_mean ?df (DfCol (node_col i ''muhat'')) ?color lp1 = Inr lp2" and
    sd: "plot_sd h ci i (DfCol (node_col i ''pihat'')) ?color
           (lp2, snd (new_figure (node_kwargs fs i) xr NotGiven (hp st))) = Inr (lp3, hp3)" and
    sur: "plot_surprise h sf i (lp3, hp3) = Inr (lp4, hp4)" and
    st': "st' = ?st0\<lparr>cols := cols st @ [lp4], level_plot := Some lp4, hp := hp4\<rparr>"
    by (auto simp: node_iteration_def node_kwargs_def Let_def eq_Inr case_prod_beta)
  obtain lp0 hp0 where fig: "new_figure (node_kwargs fs i) xr NotGiven (hp st) = (lp0, hp0)"
    by (cases "new_figure (node_kwargs fs i) xr NotGiven (hp st)") auto
  note inp = inp [unfolded fig fst_conv] and sd = sd [unfolded fig snd_conv]
  note xr' = choose_x_range_Inr [OF xr]
  note fig' = new_figure_node [OF fig]
  note inp' = input_node_Inr [OF inp]
  note mean' = plot_mean_Inr [OF mean]
  note sd' = plot_sd_Inr [OF sd]
  note sur' = plot_surprise_Inr [OF sur]
  have lp2: "lp2 = lp0\<lparr>renderers := input_glyphs h i @ [mean_line i ?color]\<rparr>"
    using inp' mean' fig' by (simp add: mean_line_def)
  show ?thesis
  proof (cases "shows_band h ci i")
    case True
    with sd' have lp3: "lp3 = lp2\<lparr>renderers := renderers lp2 @ [band i ?color], y_range := next_ref hp0\<rparr>"
      and hp3: "hp3 = snd (alloc (band_range i) hp0)" by simp_all
    show ?thesis
    proof (cases sf)
      case True
      with sur' have lp4: "lp4 = lp3\<lparr>renderers := renderers lp3 @ [surprise_line i, surprise_area i],
                       extra_y_ranges := filter (\<lambda>p. fst p \<noteq> ''surprise'') (extra_y_ranges lp3)
                                           @ [(''surprise'', next_ref hp3)],
                       side_layouts := side_layouts lp3 @ [(surprise_axis, ''right'')]\<rparr>"
        and hp4: "hp4 = snd (alloc (surprise_range i) hp3)" by simp_all
      show ?thesis
        apply (rule exI [of _ lp4])
        using fig' xr' \<open>shows_band h ci i\<close> \<open>sf\<close>
        by (simp add: st' lp4 hp4 lp3 hp3 lp2 node_renderers_def alloc_def heap_ext_def)
    next
      case False
      with sur' have lp4: "lp4 = lp3" and hp4: "hp4 = hp3" by simp_all
      show ?thesis
        apply (rule exI [of _ lp4])
        using fig' xr' \<open>shows_band h ci i\<close> \<open>\<not> sf\<close>
        by (simp add: st' lp4 hp4 lp3 hp3 lp2 node_renderers_def alloc_def heap_ext_def)
    qed
  next
    case False
    with sd' have lp3: "lp3 = lp2" and hp3: "hp3 = hp0" by simp_all
    show ?thesis
    proof (cases sf)
      case True
      with sur' have lp4: "lp4 = lp3\<lparr>renderers := renderers lp3 @ [surprise_line i, surprise_area i],
                       extra_y_ranges := filter (\<lambda>p. fst p \<noteq> ''surprise'') (extra_y_ranges lp3)
                                           @ [(''surprise'', next_ref hp3)],
                       side_layouts := side_layouts lp3 @ [(surprise_axis, ''right'')]\<rparr>"
        and hp4: "hp4 = snd (alloc (surprise_range i) hp3)" by simp_all
      show ?thesis
        apply (rule exI [of _ lp4])
        using fig' xr' \<open>\<not> shows_band h ci i\<close> \<open>sf\<close>
        by (simp add: st' lp4 hp4 lp3 hp3 lp2 node_renderers_def alloc_def heap_ext_def)
    next
      case False
      with sur' have lp4: "lp4 = lp3" and hp4: "hp4 = hp3" by simp_all
      show ?thesis
        apply (rule exI [of _ lp4])
        using fig' xr' \<open>\<not> shows_band h ci i\<close> \<open>\<not> sf\<close>
        by (simp add: st' lp4 hp4 lp3 hp3 lp2 node_renderers_def alloc_def heap_ext_def)
    qed
  qed
qed

lemma node_fig_ok_mono:
  assumes "node_fig_ok h ci sf fs i p hpf f" and "heap_ext hpf hpf'"
  shows "node_fig_ok h ci sf fs i p hpf' f"
proof (cases sf)
  case True
  with assms show ?thesis
    unfolding node_fig_ok_def heap_ext_def
    by (auto intro: less_le_trans)
next
  case False
  with assms show ?thesis
    unfolding node_fig_ok_def heap_ext_def
    by (auto intro: less_le_trans)
qed

lemma node_loop_Inr:
  assumes "node_loop h ci sf fs k st = Inr st'"
  shows "\<exists>figs. cols st' = cols st @ figs \<and> length figs = k \<and>
           palette st' = palette st + k \<and> heap_ext (hp st) (hp st') \<and>
           (if k = 0 then st' = st else level_plot st' = Some (last figs)) \<and>
           (\<forall>j<k. node_fig_ok h ci sf fs (k - j) (palette st + j) (hp st') (figs ! j)) \<and>
           (\<forall>f\<in>set figs. x_range f = loop_x_range st) \<and>
           (0 < k \<longrightarrow> cols st = [] \<longrightarrow> ranges (hp st') (next_ref (hp st)) = Some first_x_range \<and>
              next_ref (hp st) < next_ref (hp st'))"
  using assms
proof (induction k arbitrary: st)
  case 0
  then show ?case by simp
next
  case (Suc k)
  from Suc.prems obtain st1 where
    it: "node_iteration h ci sf fs (Suc k) st = Inr st1" and
    rest: "node_loop h ci sf fs k st1 = Inr st'"
    by (auto simp: bind_err_eq_Inr)
  from node_iteration_Inr [OF it] obtain f where
    st1: "st1 = st\<lparr>palette := Suc (palette st), cols := cols st @ [f],
                    level_plot := Some f, hp := hp st1\<rparr>" and
    ok: "node_fig_ok h ci sf fs (Suc k) (palette st) (hp st1) f" and
    xr: "x_range f = loop_x_range st" and
    first: "cols st = [] \<longrightarrow> ranges (hp st1) (x_range f) = Some first_x_range" and
    firstlt: "cols st = [] \<longrightarrow> x_range f < next_ref (hp st1)" and
    ext1: "heap_ext (hp st) (hp st1)"
    unfolding node_fig_ok_def loop_x_range_def first_x_range_def by blast
  have cols1: "cols st1 = cols st @ [f]" and lp1: "level_plot st1 = Some f"
    and pal1: "palette st1 = Suc (palette st)"
    by (subst st1, simp)+
  from Suc.IH [OF rest] obtain figs where
    cols': "cols st' = cols st1 @ figs" and len: "length figs = k" and
    pal': "palette st' = palette st1 + k" and ext2: "heap_ext (hp st1) (hp st')" and
    lp': "if k = 0 then st' = st1 else level_plot st' = Some (last figs)" and
    oks: "\<forall>j<k. node_fig_ok h ci sf fs (k - j) (palette st1 + j) (hp st') (figs ! j)" and
    xrs: "\<forall>g\<in>set figs. x_range g = loop_x_range st1"
    by blast
  have x1: "loop_x_range st1 = x_range f"
    by (simp add: loop_x_range_def cols1 lp1)
  have "cols st' = cols st @ (f # figs)"
    by (simp add: cols' cols1)
  moreover have "length (f # figs) = Suc k"
    by (simp add: len)
  moreover have "palette st' = palette st + Suc k"
    by (simp add: pal' pal1)
  moreover have "heap_ext (hp st) (hp st')"
    using ext1 ext2 by (rule heap_ext_trans)
  moreover have "level_plot st' = Some (last (f # figs))"
    using lp' len lp1 by (cases "k = 0") auto
  moreover have "\<forall>j<Suc k. node_fig_ok h ci sf fs (Suc k - j) (palette st + j) (hp st') ((f # figs) ! j)"
  proof (intro allI impI)
    fix j assume j: "j < Suc k"
    show "node_fig_ok h ci sf fs (Suc k - j) (palette st + j) (hp st') ((f # figs) ! j)"
    proof (cases j)
      case 0
      with ok ext2 show ?thesis by (simp add: node_fig_ok_mono)
    next
      case (Suc j')
      with j oks have "node_fig_ok h ci sf fs (k - j') (palette st1 + j') (hp st') (figs ! j')"
        by simp
      with Suc show ?thesis by (simp add: pal1)
    qed
  qed
  moreover have "\<forall>g\<in>set (f # figs). x_range g = loop_x_range st"
    using xr xrs x1 by simp
  moreover have "cols st = [] \<longrightarrow> ranges (hp st') (next_ref (hp st)) = Some first_x_range \<and>
      next_ref (hp st) < next_ref (hp st')"
  proof
    assume e: "cols st = []"
    with xr have "x_range f = next_ref (hp st)" by (simp add: loop_x_range_def)
    with first firstlt e ext2 show "ranges (hp st') (next_ref (hp st)) = Some first_x_range \<and>
      next_ref (hp st) < next_ref (hp st')"
      by (auto simp: heap_ext_def)
  qed
  ultimately show ?case
    by (intro exI [of _ "f # figs"]) simp
qed

lemma new_figure_fields:
  "new_figure kw xr yr h0 = (lp0, hp0) \<Longrightarrow>
     fig_kwargs lp0 = kw \<and> renderers lp0 = [] \<and> side_layouts lp0 = [] \<and> extra_y_ranges lp0 = [] \<and>
     tools lp0 = [] \<and> attrs lp0 = [] \<and> active_multi lp0 = None \<and>
     (\<forall>r. xr = Shared r \<longrightarrow> x_range lp0 = r) \<and> (\<forall>r. yr = Shared r \<longrightarrow> y_range lp0 = r) \<and>
     heap_ext h0 hp0"
  by (cases xr; cases yr) (auto simp: new_figure_def new_range_def alloc_def heap_ext_def Let_def)

lemma global_surprise_Inr:
  assumes "global_surprise h fs st = Inr (sp, st1)"
  shows "\<exists>lp. level_plot st = Some lp \<and> st1 = st\<lparr>cols := cols st @ [sp], hp := hp st1\<rparr> \<and>
           surprise_fig_ok h fs (x_range lp) sp \<and> heap_ext (hp st) (hp st1)"
proof -
  from assms obtain lp where lp: "level_plot st = Some lp"
    by (cases "level_plot st") (auto simp: global_surprise_def)
  obtain sp0 hp1 where fig:
    "new_figure (surprise_kwargs h fs) (Shared (x_range lp)) NotGiven (hp st) = (sp0, hp1)"
    by (cases "new_figure (surprise_kwargs h fs) (Shared (x_range lp)) NotGiven (hp st)") auto
  note ff = new_figure_fields [OF fig]
  from assms lp fig have
    "sp = sp0\<lparr>renderers := renderers sp0 @
        [VArea (DfCol ''time'') (Ser (DfCol ''surprise'')) (Sca (SeriesMin (DfCol ''surprise'')))
           [(''color'', PStr ''#7f7f7f''), (''alpha'', PReal 0.2)],
         Line (DfCol ''time'') (DfCol ''surprise'')
           [(''color'', PStr ''#2a2a2a''), (''line_width'', PReal 0.5)]]\<rparr>"
    and "st1 = st\<lparr>cols := cols st @ [sp], hp := hp1\<rparr>"
    by (auto simp: global_surprise_def surprise_kwargs_def add_glyph_def eq_Inr Let_def)
  with ff lp show ?thesis
    by (simp add: surprise_fig_ok_def)
qed

lemma range_selector_Inr:
  assumes "range_selector h fs sp st = Inr st2"
  shows "\<exists>lp sel. level_plot st = Some lp \<and> st2 = st\<lparr>cols := cols st @ [sel], hp := hp st2\<rparr> \<and>
           selector_ok fs (x_range sp) (y_range lp) sel \<and> x_range sel = next_ref (hp st) \<and>
           heap_ext (hp st) (hp st2)"
proof -
  from assms obtain lp where lp: "level_plot st = Some lp"
    by (cases "level_plot st") (auto simp: range_selector_def)
  obtain s0 hp1 where fig:
    "new_figure (select_kwargs fs) NotGiven (Shared (y_range lp)) (hp st) = (s0, hp1)"
    by (cases "new_figure (select_kwargs fs) NotGiven (Shared (y_range lp)) (hp st)") auto
  note ff = new_figure_fields [OF fig]
  have x0: "x_range s0 = next_ref (hp st)"
    using fig by (auto simp: new_figure_def new_range_def alloc_def Let_def)
  define sel where "sel = s0\<lparr>renderers := renderers s0 @ [Line (DfCol ''time'') (DfCol ''observation'') []],
      attrs := attrs s0 @ [(''ygrid.grid_line_color'', PNone)],
      tools := tools s0 @ [the_range_tool (x_range sp)],
      active_multi := Some (the_range_tool (x_range sp))\<rparr>"
  from assms lp fig have "st2 = st\<lparr>cols := cols st @ [sel], hp := hp1\<rparr>"
    by (auto simp: range_selector_def select_kwargs_def the_range_tool_def add_glyph_def eq_Inr
        Let_def sel_def)
  with ff lp x0 show ?thesis
    by (intro exI [of _ lp] exI [of _ sel]) (simp add: selector_ok_def sel_def)
qed

lemma plot_trajectories_Inr:
  assumes "plot_trajectories h ci sf fs sl hp0 = Inr (col, hp')"
  shows "\<exists>figs sp sel.
           col = Column (map Fig (figs @ sp # (if sl then [sel] else []))) column_kwargs \<and>
           length figs = count_nodes (to_pandas h) \<and> 0 < count_nodes (to_pandas h) \<and>
           (\<forall>j<count_nodes (to_pandas h).
              node_fig_ok h ci sf fs (count_nodes (to_pandas h) - j) j hp' (figs ! j)) \<and>
           (\<forall>f\<in>set figs. x_range f = next_ref hp0) \<and>
           ranges hp' (next_ref hp0) = Some first_x_range \<and>
           surprise_fig_ok h fs (next_ref hp0) sp \<and>
           (sl \<longrightarrow> selector_ok fs (next_ref hp0) (y_range (last figs)) sel) \<and>
           heap_ext hp0 hp'"
proof -
  let ?n = "count_nodes (to_pandas h)"
  let ?init = "\<lparr>cols = [], level_plot = None, palette = 0, hp = hp0\<rparr>"
  from assms obtain st sp st1 st2 where
    loop: "node_loop h ci sf fs ?n ?init = Inr st" and
    glob: "global_surprise h fs st = Inr (sp, st1)" and
    sel: "(if sl then range_selector h fs sp st1 else Inr st1) = Inr st2" and
    col: "col = Column (map Fig (cols st2)) column_kwargs" and hp': "hp' = hp st2"
    by (auto simp: plot_trajectories_def column_kwargs_def Let_def bind_err_eq_Inr)
  from node_loop_Inr [OF loop] obtain figs where
    cols: "cols st = figs" and len: "length figs = ?n" and
    ext0: "heap_ext hp0 (hp st)" and
    lp: "if ?n = 0 then st = ?init else level_plot st = Some (last figs)" and
    oks: "\<forall>j<?n. node_fig_ok h ci sf fs (?n - j) j (hp st) (figs ! j)" and
    xrs: "\<forall>f\<in>set figs. x_range f = next_ref hp0" and
    first: "0 < ?n \<longrightarrow> ranges (hp st) (next_ref hp0) = Some first_x_range \<and>
              next_ref hp0 < next_ref (hp st)"
    by (auto simp: loop_x_range_def)
  from global_surprise_Inr [OF glob] obtain lp0 where
    lp0: "level_plot st = Some lp0" and
    st1: "st1 = st\<lparr>cols := cols st @ [sp], hp := hp st1\<rparr>" and
    spok: "surprise_fig_ok h fs (x_range lp0) sp" and ext1: "heap_ext (hp st) (hp st1)"
    by blast
  have pos: "0 < ?n"
    using lp lp0 by (cases "?n = 0") auto
  with lp lp0 have last: "lp0 = last figs" by simp
  from pos len have "figs \<noteq> []" by auto
  then have "last figs \<in> set figs" by simp
  with xrs last have xlp: "x_range lp0 = next_ref hp0" by simp
  have cols1: "cols st1 = figs @ [sp]" and lp1: "level_plot st1 = Some lp0"
    by (subst st1, simp add: cols lp0)+
  have ext2: "heap_ext (hp st1) (hp st2)" and
    cols2: "\<exists>sel. cols st2 = figs @ sp # (if sl then [sel] else []) \<and>
              (sl \<longrightarrow> selector_ok fs (next_ref hp0) (y_range (last figs)) sel)"
  proof -
    show "heap_ext (hp st1) (hp st2)"
    proof (cases sl)
      case True
      with sel have "range_selector h fs sp st1 = Inr st2" by simp
      from range_selector_Inr [OF this] show ?thesis by blast
    next
      case False
      with sel show ?thesis by simp
    qed
    show "\<exists>sel. cols st2 = figs @ sp # (if sl then [sel] else []) \<and>
              (sl \<longrightarrow> selector_ok fs (next_ref hp0) (y_range (last figs)) sel)"
    proof (cases sl)
      case True
      with sel have "range_selector h fs sp st1 = Inr st2" by simp
      from range_selector_Inr [OF this] obtain lp' s where
        "level_plot st1 = Some lp'" and s2: "st2 = st1\<lparr>cols := cols st1 @ [s], hp := hp st2\<rparr>"
        and sok: "selector_ok fs (x_range sp) (y_range lp') s"
        by blast
      with lp1 last have lp': "lp' = last figs" by simp
      have "cols st2 = figs @ [sp, s]"
        by (subst s2) (simp add: cols1)
      moreover from spok xlp have "x_range sp = next_ref hp0"
        by (simp add: surprise_fig_ok_def)
      ultimately show ?thesis
        using True sok lp' by (intro exI [of _ s]) simp
    next
      case False
      with sel cols1 show ?thesis by simp
    qed
  qed
  from cols2 obtain s where
    c2: "cols st2 = figs @ sp # (if sl then [s] else [])" and
    sok: "sl \<longrightarrow> selector_ok fs (next_ref hp0) (y_range (last figs)) s"
    by blast
  have ext12: "heap_ext (hp st) (hp st2)"
    using ext1 ext2 by (rule heap_ext_trans)
  have "col = Column (map Fig (figs @ sp # (if sl then [s] else []))) column_kwargs"
    by (simp add: col c2)
  moreover have "\<forall>j<?n. node_fig_ok h ci sf fs (?n - j) j hp' (figs ! j)"
    using oks ext12 by (auto simp: hp' intro: node_fig_ok_mono)
  moreover have "ranges hp' (next_ref hp0) = Some first_x_range"
    using first pos ext12 by (simp add: hp' heap_ext_def)
  moreover have "surprise_fig_ok h fs (next_ref hp0) sp"
    using spok xlp by simp
  moreover have "heap_ext hp0 hp'"
    unfolding hp' using ext0 ext12 by (rule heap_ext_trans)
  ultimately show ?thesis
    using len pos xrs sok by (intro exI [of _ figs] exI [of _ sp] exI [of _ s]) simp
qed




lemma bound_ok_getattr [simp]: "bound_ok (getattr df name)"
  by (simp add: bound_ok_def getattr_def)

lemma bound_ok_iloc [simp]: "bound_ok (iloc df s k)"
  by (simp add: bound_ok_def iloc_def)












lemma returns_Inr [simp]: "returns (Inr x)"
  by (simp add: returns_def)

lemma returns_bind:
  assumes "returns m" and "\<And>x. m = Inr x \<Longrightarrow> returns (f x)"
  shows "returns (bind_err m f)"
  using assms by (auto simp: returns_def)

lemma returns_getitem: "name \<in> set (columns df) \<Longrightarrow> returns (getitem df name)"
  by (simp add: getitem_def)

lemma returns_getattr: "name \<in> set (columns df) \<Longrightarrow> returns (getattr df name)"
  by (simp add: getattr_def)

lemma returns_iloc0: "0 < n_rows df \<Longrightarrow> returns (iloc df s 0)"
  by (simp add: iloc_def)

lemma returns_iloc_last: "0 < n_rows df \<Longrightarrow> returns (iloc df s (- 1))"
  by (simp add: iloc_def)

lemma returns_choose_x_range:
  assumes "''time'' \<in> set (columns df)" and "0 < n_rows df"
    and "cols st = [] \<or> level_plot st \<noteq> None"
  shows "returns (choose_x_range df st)"
proof (cases "cols st = []")
  case True
  with assms show ?thesis
    by (simp add: choose_x_range_def)
       (intro returns_bind returns_getattr returns_iloc0 returns_iloc_last returns_Inr; simp)
next
  case False
  with assms show ?thesis by (auto simp: choose_x_range_def)
qed

lemma returns_input_node:
  assumes "''time'' \<in> set (columns (to_pandas h))" and "''observation'' \<in> set (columns (to_pandas h))"
  shows "returns (input_node h i lp)"
  using assms unfolding input_node_def Let_def
  by (auto intro!: returns_bind returns_getattr)

lemma returns_plot_mean:
  assumes "''time'' \<in> set (columns df)"
  shows "returns (plot_mean df mu color lp)"
  using assms unfolding plot_mean_def
  by (auto intro!: returns_bind returns_getattr)

lemma returns_plot_sd:
  assumes "''time'' \<in> set (columns (to_pandas h))" and "node_columns_present (to_pandas h) i"
  shows "returns (plot_sd h ci i pihat color lph)"
  using assms unfolding plot_sd_def Let_def case_prod_beta node_columns_present_def
  by (auto intro!: returns_bind returns_getattr returns_getitem)

lemma returns_plot_surprise:
  assumes "''time'' \<in> set (columns (to_pandas h))" and "node_columns_present (to_pandas h) i"
  shows "returns (plot_surprise h sf i lph)"
  using assms unfolding plot_surprise_def Let_def case_prod_beta node_columns_present_def
  by (auto intro!: returns_bind returns_getattr returns_getitem)

lemma returns_node_iteration:
  assumes "''time'' \<in> set (columns (to_pandas h))" and "''observation'' \<in> set (columns (to_pandas h))"
    and "0 < n_rows (to_pandas h)" and "node_columns_present (to_pandas h) i"
    and "cols st = [] \<or> level_plot st \<noteq> None"
  shows "returns (node_iteration h ci sf fs i st)"
  unfolding node_iteration_def Let_def case_prod_beta
  using assms
  by (intro returns_bind returns_getitem returns_choose_x_range returns_input_node
        returns_plot_mean returns_plot_sd returns_plot_surprise returns_Inr)
     (simp_all add: node_columns_present_def)

lemma returns_node_loop:
  assumes "''time'' \<in> set (columns (to_pandas h))" and "''observation'' \<in> set (columns (to_pandas h))"
    and "0 < n_rows (to_pandas h)" and "\<forall>i. 1 \<le> i \<and> i \<le> k \<longrightarrow> node_columns_present (to_pandas h) i"
    and "cols st = [] \<or> level_plot st \<noteq> None"
  shows "returns (node_loop h ci sf fs k st)"
  using assms(4,5)
proof (induction k arbitrary: st)
  case 0
  then show ?case by simp
next
  case (Suc k)
  show ?case
  proof (simp, rule returns_bind)
    show "returns (node_iteration h ci sf fs (Suc k) st)"
      using assms(1-3) Suc.prems by (intro returns_node_iteration) simp_all
  next
    fix st1 assume "node_iteration h ci sf fs (Suc k) st = Inr st1"
    from node_iteration_Inr [OF this] obtain f where
      s1: "st1 = st\<lparr>palette := Suc (palette st), cols := cols st @ [f],
                    level_plot := Some f, hp := hp st1\<rparr>" by blast
    have "level_plot st1 = Some f" by (subst s1) simp
    with Suc.prems show "returns (node_loop h ci sf fs k st1)"
      by (intro Suc.IH) simp_all
  qed
qed

lemma returns_global_surprise:
  assumes "''time'' \<in> set (columns (to_pandas h))" and "''surprise'' \<in> set (columns (to_pandas h))"
    and "level_plot st \<noteq> None"
  shows "returns (global_surprise h fs st)"
  using assms unfolding global_surprise_def Let_def case_prod_beta
  by (auto intro!: returns_bind returns_getattr)

lemma returns_range_selector:
  assumes "''time'' \<in> set (columns (to_pandas h))" and "''observation'' \<in> set (columns (to_pandas h))"
    and "level_plot st \<noteq> None"
  shows "returns (range_selector h fs sp st)"
  using assms unfolding range_selector_def Let_def case_prod_beta
  by (auto intro!: returns_bind returns_getattr)

lemma plot_trajectories_returns:
  assumes "well_formed h"
  shows "returns (plot_trajectories h ci sf fs sl hp0)"
proof -
  let ?df = "to_pandas h"
  let ?n = "count_nodes ?df"
  let ?init = "\<lparr>cols = [], level_plot = None, palette = 0, hp = hp0\<rparr>"
  from assms have t: "''time'' \<in> set (columns ?df)" and ob: "''observation'' \<in> set (columns ?df)"
    and su: "''surprise'' \<in> set (columns ?df)" and rows: "0 < n_rows ?df" and pos: "0 < ?n"
    and nodes: "\<forall>i. 1 \<le> i \<and> i \<le> ?n \<longrightarrow> node_columns_present ?df i"
    by (auto simp: well_formed_def Let_def list_all_iff)
  show ?thesis
    unfolding plot_trajectories_def Let_def
  proof (rule returns_bind)
    show "returns (node_loop h ci sf fs ?n ?init)"
      using t ob rows nodes by (rule returns_node_loop) simp
  next
    fix st assume loop: "node_loop h ci sf fs ?n ?init = Inr st"
    from node_loop_Inr [OF loop] pos obtain figs where lp: "level_plot st = Some (last figs)"
      by auto
    show "returns (bind_err (global_surprise h fs st) (\<lambda>(surprise_plot, st1).
            bind_err (if sl then range_selector h fs surprise_plot st1 else Inr st1) (\<lambda>st2.
            Inr (Column (map Fig (cols st2)) [(''sizing_mode'', PStr ''stretch_width'')], hp st2))))"
    proof (rule returns_bind)
      from lp have "level_plot st \<noteq> None" by simp
      with t su show "returns (global_surprise h fs st)"
        by (rule returns_global_surprise)
    next
      fix x assume g: "global_surprise h fs st = Inr x"
      obtain sp st1 where x: "x = (sp, st1)" by (cases x)
      from global_surprise_Inr [OF g [unfolded x]] obtain lp0 where
        s1: "st1 = st\<lparr>cols := cols st @ [sp], hp := hp st1\<rparr>" and l0: "level_plot st = Some lp0"
        by blast
      have "level_plot st1 \<noteq> None" by (subst s1) (simp add: l0)
      with t ob have "returns (if sl then range_selector h fs sp st1 else Inr st1)"
        by (simp add: returns_range_selector)
      then show "returns (case x of (surprise_plot, st1) \<Rightarrow>
            bind_err (if sl then range_selector h fs surprise_plot st1 else Inr st1) (\<lambda>st2.
            Inr (Column (map Fig (cols st2)) [(''sizing_mode'', PStr ''stretch_width'')], hp st2)))"
        unfolding x by (simp only: prod.case) (rule returns_bind, simp_all)
    qed
  qed
qed

lemma count_two_node_hgf: "count_nodes (to_pandas two_node_hgf) = 2"
  by (simp add: two_node_hgf_def count_nodes_def)

lemma str_nat_1: "str_nat 1 = ''1''" and str_nat_2: "str_nat 2 = ''2''" and str_nat_Suc0: "str_nat (Suc 0) = ''1''"
  by (simp_all add: str_nat.simps digit_char_def)

lemma well_formed_two_node_hgf: "well_formed two_node_hgf"
  by (simp add: well_formed_def count_two_node_hgf Let_def)
     (simp add: two_node_hgf_def node_columns_present_def node_col_def str_nat_1 str_nat_2 str_nat_Suc0 upt_rec)

lemma fit_hgf_unfold:
  "fit_hgf lib ts o1 o2 m1 m2 w =
     (let w1 = w\<lparr>lib_calls := lib_calls w @ [Call_HGF (fit_args o1 o2 m1 m2)]\<rparr> in
      case HGF lib (fit_args o1 o2 m1 m2) of
        Inl e \<Rightarrow> (Inl e, w1)
      | Inr model \<Rightarrow>
          let w2 = w1\<lparr>lib_calls := lib_calls w1 @ [Call_input_data ts]\<rparr> in
          case input_data lib model ts of
            Inl e \<Rightarrow> (Inl e, w2)
          | Inr fitted \<Rightarrow>
              (case plot_trajectories fitted True True 200 True (store w) of
                 Inl e \<Rightarrow> (Inl e, w2)
               | Inr (col, hp') \<Rightarrow> (Inr col, w2\<lparr>store := hp'\<rparr>)))"
  by (simp add: fit_hgf_def fit_args_def Let_def split: sum.splits prod.splits)

lemma fit_hgf_calls:
  "lib_calls (snd (fit_hgf lib ts o1 o2 m1 m2 w)) =
     lib_calls w @ Call_HGF (fit_args o1 o2 m1 m2) #
       (case HGF lib (fit_args o1 o2 m1 m2) of Inl e \<Rightarrow> [] | Inr model \<Rightarrow> [Call_input_data ts])"
  by (simp add: fit_hgf_unfold Let_def split: sum.splits prod.splits)

lemma fit_hgf_Inr:
  assumes "fst (fit_hgf lib ts o1 o2 m1 m2 w) = Inr col"
  shows "\<exists>model fitted hp'. HGF lib (fit_args o1 o2 m1 m2) = Inr model \<and>
           input_data lib model ts = Inr fitted \<and>
           plot_trajectories fitted True True 200 True (store w) = Inr (col, hp')"
  using assms by (auto simp: fit_hgf_unfold Let_def split: sum.splits prod.splits)

lemma fit_hgf_Inl:
  assumes "fst (fit_hgf lib ts o1 o2 m1 m2 w) = Inl e"
  shows "HGF lib (fit_args o1 o2 m1 m2) = Inl e \<or>
         (\<exists>model. HGF lib (fit_args o1 o2 m1 m2) = Inr model \<and>
            (input_data lib model ts = Inl e \<or>
             (\<exists>fitted. input_data lib model ts = Inr fitted \<and>
                plot_trajectories fitted True True 200 True (store w) = Inl e)))"
  using assms by (auto simp: fit_hgf_unfold Let_def split: sum.splits prod.splits)

lemma on_change_three:
  assumes "layout st = Column [a, b, c] kw"
  shows "on_change lib attrname old new st =
           (case fit_now lib st of
              (Inl e, w) \<Rightarrow> (Inl e, st\<lparr>world := w\<rparr>)
            | (Inr col, w) \<Rightarrow> (Inr (), st\<lparr>world := w, layout := Column [a, b, col] kw\<rparr>))"
  using assms by (simp add: on_change_def fit_now_def split: prod.splits sum.splits)

lemma later_calls_fit:
  "list_all (later_call_ok ts) rest \<Longrightarrow>
   lib_calls w = c # rest \<Longrightarrow>
   \<exists>rest'. lib_calls (snd (fit_hgf lib ts o1 o2 m1 m2 w)) = c # rest' \<and>
       list_all (later_call_ok ts) rest'"
  by (auto simp: fit_hgf_calls later_call_ok_def split: sum.splits)

lemma on_change_inv:
  assumes "app_inv lib st"
  shows "app_inv lib (snd (on_change lib attrname old new st))"
proof -
  from assms obtain col fitted hp0 hp' rest where
    lay: "layout st = Column [div_widget, widgets, col] []" and
    pl: "plot_trajectories fitted True True 200 True hp0 = Inr (col, hp')" and
    calls: "lib_calls (world st) = Call_load_data ''continuous'' # rest" and
    ok: "list_all (later_call_ok (timeseries st)) rest"
    by (auto simp: app_inv_def)
  obtain r w where fit: "fit_now lib st = (r, w)" by (cases "fit_now lib st")
  from later_calls_fit [OF ok calls, of lib "s_value (sliders st S1)" "s_value (sliders st S2)"
      "s_value (sliders st S3)" "s_value (sliders st S4)"] fit
  obtain rest' where calls': "lib_calls w = Call_load_data ''continuous'' # rest'"
    and ok': "list_all (later_call_ok (timeseries st)) rest'"
    by (auto simp: fit_now_def)
  show ?thesis
  proof (cases r)
    case (Inl e)
    with fit lay have "snd (on_change lib attrname old new st) = st\<lparr>world := w\<rparr>"
      by (simp add: on_change_three)
    with assms lay pl calls' ok' show ?thesis
      by (auto simp: app_inv_def)
  next
    case (Inr c')
    with fit lay have s: "snd (on_change lib attrname old new st)
        = st\<lparr>world := w, layout := Column [div_widget, widgets, c'] []\<rparr>"
      by (simp add: on_change_three)
    from fit Inr have "fst (fit_hgf lib (timeseries st) (s_value (sliders st S1))
       (s_value (sliders st S2)) (s_value (sliders st S3)) (s_value (sliders st S4)) (world st)) = Inr c'"
      by (simp add: fit_now_def)
    from fit_hgf_Inr [OF this] obtain f' h'' where
      "plot_trajectories f' True True 200 True (store (world st)) = Inr (c', h'')" by blast
    with assms s calls' ok' show ?thesis
      by (auto simp: app_inv_def)
  qed
qed

lemma on_change_frame:
  "sliders (snd (on_change lib attrname old new st)) = sliders st \<and>
   dropdown_state (snd (on_change lib attrname old new st)) = dropdown_state st \<and>
   timeseries (snd (on_change lib attrname old new st)) = timeseries st \<and>
   doc_title (snd (on_change lib attrname old new st)) = doc_title st"
  by (simp add: on_change_def split: prod.splits sum.splits node.splits)

lemma registered_callbacks: "callbacks_for ''value'' (s_callbacks (registered sid)) = [On_change]"
  by (cases sid)
     (simp_all add: registered_def register_on_change_def created_slider_def callbacks_for_def
        slider1_def slider2_def slider3_def slider4_def)

lemma inv_callbacks:
  assumes "app_inv lib st"
  shows "callbacks_for ''value'' (s_callbacks (sliders st sid)) = [On_change]"
proof -
  from assms have "sliders st sid = (registered sid)\<lparr>s_value := s_value (sliders st sid)\<rparr>"
    by (simp add: app_inv_def)
  then have "s_callbacks (sliders st sid) = s_callbacks (registered sid)"
    by (metis slider_widget.select_convs(6) slider_widget.surjective slider_widget.update_convs(3))
  then show ?thesis by (simp add: registered_callbacks)
qed

lemma moved_inv:
  assumes "app_inv lib st"
  shows "app_inv lib (moved sid v st)"
proof -
  have "\<forall>s. sliders (moved sid v st) s = (registered s)\<lparr>s_value := s_value (sliders (moved sid v st) s)\<rparr>"
  proof
    fix s
    from assms have a: "sliders st s = (registered s)\<lparr>s_value := s_value (sliders st s)\<rparr>"
      by (simp add: app_inv_def)
    show "sliders (moved sid v st) s = (registered s)\<lparr>s_value := s_value (sliders (moved sid v st) s)\<rparr>"
    proof (cases "s = sid")
      case True
      have "(sliders st s)\<lparr>s_value := v\<rparr> = (registered s)\<lparr>s_value := v\<rparr>"
        by (subst a) simp
      with True show ?thesis by (simp add: moved_def)
    next
      case False
      with a show ?thesis by (simp add: moved_def)
    qed
  qed
  with assms show ?thesis
    by (simp add: app_inv_def moved_def)
qed

lemma set_slider_value_unfold:
  assumes "app_inv lib st"
  shows "set_slider_value lib sid v st =
           (if v = s_value (sliders st sid) then (Inr (), st)
            else on_change lib ''value'' (PReal (s_value (sliders st sid))) (PReal v) (moved sid v st))"
  using inv_callbacks [OF assms, of sid]
  by (simp add: set_slider_value_def Let_def moved_def split: prod.splits sum.splits)

lemma click_dropdown_unfold:
  assumes "app_inv lib st"
  shows "click_dropdown lib item st = (Inr (), st)"
  using assms by (simp add: click_dropdown_def app_inv_def dropdown_def callbacks_for_def)

lemma handle_event_inv:
  assumes "app_inv lib st"
  shows "app_inv lib (snd (handle_event lib ev st))"
proof (cases ev)
  case (SliderMoved sid v)
  with assms show ?thesis
    by (simp add: handle_event_def set_slider_value_unfold on_change_inv moved_inv)
next
  case (DropdownClicked item)
  with assms show ?thesis
    by (simp add: handle_event_def click_dropdown_unfold)
qed

lemma run_events_inv:
  assumes "app_inv lib st"
  shows "app_inv lib (run_events lib evs st)"
  using assms by (induction evs arbitrary: st) (simp_all add: handle_event_inv)

lemma startup_inv:
  assumes "startup lib = Inr st"
  shows "app_inv lib st"
proof -
  let ?w0 = "\<lparr>store = \<lparr>next_ref = 0, ranges = Map.empty\<rparr>,
               lib_calls = [Call_load_data ''continuous'']\<rparr>"
  from assms obtain ts where ld: "load_data lib ''continuous'' = Inr ts"
    by (auto simp: startup_def bind_err_eq_Inr)
  let ?fit = "fit_hgf lib ts (s_value (registered S1)) (s_value (registered S2))
                (s_value (registered S3)) (s_value (registered S4)) ?w0"
  obtain r w where fit: "?fit = (r, w)" by (cases ?fit)
  from assms ld fit obtain col where r: "r = Inr col" and
    st: "st = \<lparr>timeseries = ts, dropdown_state = dropdown, sliders = registered,
              layout = Column [div_widget, widgets, col] [],
              doc_title = ''The Hierarchical Gaussian Filter'', world = w\<rparr>"
    by (cases r) (auto simp: startup_def Let_def registered_def [abs_def])
  from fit r have "fst ?fit = Inr col" by simp
  from fit_hgf_Inr [OF this] obtain fitted hp' where
    pl: "plot_trajectories fitted True True 200 True (store ?w0) = Inr (col, hp')" by blast
  have "list_all (later_call_ok ts) []" by simp
  from later_calls_fit [OF this, of ?w0 "Call_load_data ''continuous''" lib
      "s_value (registered S1)" "s_value (registered S2)" "s_value (registered S3)" "s_value (registered S4)"]
    fit
  obtain rest where "lib_calls w = Call_load_data ''continuous'' # rest"
    and "list_all (later_call_ok ts) rest" by auto
  with ld pl show ?thesis
    unfolding st app_inv_def by auto
qed

lemma reachable_inv:
  assumes "startup lib = Inr st0"
  shows "app_inv lib (run_events lib evs st0)"
  using startup_inv [OF assms] by (rule run_events_inv)

section \<open>The plotting function needs at least one node\<close>




section \<open>The returned column\<close>

lemma chart_figures_map_Fig: "chart_figures (Column (map Fig figs) kw) = figs"
  by (induction figs) (simp_all add: chart_figures_def)

lemma plotted_figures_eq:
  "plot_trajectories h ci sf fs sl hp0 = Inr (col, hp') \<Longrightarrow>
   plotted_figures h ci sf fs sl hp0 = chart_figures col"
  by (simp add: plotted_figures_def)

lemma chart_figures_plot:
  assumes "plot_trajectories h ci sf fs sl hp0 = Inr (col, hp')"
  shows "\<exists>figs sp sel.
           chart_figures col = figs @ sp # (if sl then [sel] else []) \<and>
           length figs = count_nodes (to_pandas h) \<and> 0 < count_nodes (to_pandas h) \<and>
           (\<forall>j<count_nodes (to_pandas h).
              node_fig_ok h ci sf fs (count_nodes (to_pandas h) - j) j hp' (figs ! j)) \<and>
           (\<forall>f\<in>set figs. x_range f = next_ref hp0) \<and>
           ranges hp' (next_ref hp0) = Some first_x_range \<and>
           surprise_fig_ok h fs (next_ref hp0) sp \<and>
           (sl \<longrightarrow> selector_ok fs (next_ref hp0) (y_range (last figs)) sel) \<and>
           heap_ext hp0 hp'"
proof -
  from plot_trajectories_Inr [OF assms] obtain figs sp sel where
    col: "col = Column (map Fig (figs @ sp # (if sl then [sel] else []))) column_kwargs" and
    rest: "length figs = count_nodes (to_pandas h) \<and> 0 < count_nodes (to_pandas h) \<and>
           (\<forall>j<count_nodes (to_pandas h).
              node_fig_ok h ci sf fs (count_nodes (to_pandas h) - j) j hp' (figs ! j)) \<and>
           (\<forall>f\<in>set figs. x_range f = next_ref hp0) \<and>
           ranges hp' (next_ref hp0) = Some first_x_range \<and>
           surprise_fig_ok h fs (next_ref hp0) sp \<and>
           (sl \<longrightarrow> selector_ok fs (next_ref hp0) (y_range (last figs)) sel) \<and>
           heap_ext hp0 hp'"
    by blast
  have "chart_figures col = figs @ sp # (if sl then [sel] else [])"
    unfolding col by (rule chart_figures_map_Fig)
  with rest show ?thesis by blast
qed

lemma returns_two_node_hgf:
  "\<exists>col hp'. plot_trajectories two_node_hgf ci sf fs sl hp0 = Inr (col, hp')"
  using plot_trajectories_returns [OF well_formed_two_node_hgf, of ci sf fs sl hp0]
  by (simp add: returns_def)

section \<open>Linked charts\<close>

text \<open>
  C3. For a fitted model with at least one node, all charts of the returned column are
  linked. Every node figure and the global surprise figure hold the x range object of the
  node figure created first, which is the range between the first and the last time stamp;
  with \<^verbatim>\<open>slider\<close> true the range tool of the selection strip is built over that same
  object. Hence a new value stored in the range object of the tool is the x range that
  every one of these charts sees.
\<close>

theorem charts_share_x_range:
  assumes "plot_trajectories h ci sf fs sl hp0 = Inr (col, hp')"
  shows "0 < count_nodes (to_pandas h) \<and>
         length (chart_figures col) = count_nodes (to_pandas h) + (if sl then 2 else 1) \<and>
         (\<forall>j\<le>count_nodes (to_pandas h).
            x_range (chart_figures col ! j) = x_range (chart_figures col ! 0)) \<and>
         ranges hp' (x_range (chart_figures col ! 0))
           = Some (Range1d (Iloc (DfCol ''time'') 0) (Iloc (DfCol ''time'') (- 1))) \<and>
         (sl \<longrightarrow>
            map tool_x_range (tools (chart_figures col ! Suc (count_nodes (to_pandas h))))
              = [x_range (chart_figures col ! 0)] \<and>
            (\<forall>r. \<forall>j\<le>count_nodes (to_pandas h).
               ((ranges hp')(tool_x_range (hd (tools (chart_figures col
                    ! Suc (count_nodes (to_pandas h))))) \<mapsto> r))
                 (x_range (chart_figures col ! j)) = Some r))"
proof -
  let ?n = "count_nodes (to_pandas h)"
  from chart_figures_plot [OF assms] obtain figs sp sel where
    cf: "chart_figures col = figs @ sp # (if sl then [sel] else [])" and
    len: "length figs = ?n" and pos: "0 < ?n" and
    xrs: "\<forall>f\<in>set figs. x_range f = next_ref hp0" and
    first: "ranges hp' (next_ref hp0) = Some first_x_range" and
    spok: "surprise_fig_ok h fs (next_ref hp0) sp" and
    selok: "sl \<longrightarrow> selector_ok fs (next_ref hp0) (y_range (last figs)) sel"
    by blast
  have x: "x_range (chart_figures col ! j) = next_ref hp0" if "j \<le> ?n" for j
  proof (cases "j < ?n")
    case True
    with len have "chart_figures col ! j = figs ! j" and "figs ! j \<in> set figs"
      by (simp_all add: cf nth_append)
    with xrs show ?thesis by simp
  next
    case False
    with that len have "chart_figures col ! j = sp"
      by (simp add: cf nth_append)
    with spok show ?thesis by (simp add: surprise_fig_ok_def)
  qed
  have x0: "x_range (chart_figures col ! 0) = next_ref hp0"
    by (rule x) simp
  have sel: "chart_figures col ! Suc ?n = sel" if sl
    using that len by (simp add: cf nth_append)
  have tl: "tools sel = [RangeTool (next_ref hp0)
      [(''fill_color'', PStr ''navy''), (''fill_alpha'', PReal 0.2)]]" if sl
    using that selok by (simp add: selector_ok_def the_range_tool_def)
  have c1: "length (chart_figures col) = ?n + (if sl then 2 else 1)"
    by (simp add: cf len)
  have c2: "\<forall>j\<le>?n. x_range (chart_figures col ! j) = x_range (chart_figures col ! 0)"
    by (simp add: x x0)
  have c3: "ranges hp' (x_range (chart_figures col ! 0))
           = Some (Range1d (Iloc (DfCol ''time'') 0) (Iloc (DfCol ''time'') (- 1)))"
    using first by (simp add: x0 first_x_range_def)
  have c4: "map tool_x_range (tools (chart_figures col ! Suc ?n)) = [x_range (chart_figures col ! 0)]"
    if sl
    by (simp add: sel [OF that] tl [OF that] x0)
  have c5: "\<forall>r. \<forall>j\<le>?n.
               ((ranges hp')(tool_x_range (hd (tools (chart_figures col ! Suc ?n))) \<mapsto> r))
                 (x_range (chart_figures col ! j)) = Some r"
    if sl
    by (simp add: sel [OF that] tl [OF that] x)
  from pos c1 c2 c3 c4 c5 show ?thesis
    by blast
qed

theorem charts_share_x_range_witness:
  "length (plotted_figures two_node_hgf True True 200 True empty_heap) = 4 \<and>
   x_range (plotted_figures two_node_hgf True True 200 True empty_heap ! 1)
     = x_range (plotted_figures two_node_hgf True True 200 True empty_heap ! 0) \<and>
   x_range (plotted_figures two_node_hgf True True 200 True empty_heap ! 2)
     = x_range (plotted_figures two_node_hgf True True 200 True empty_heap ! 0) \<and>
   map tool_x_range (tools (plotted_figures two_node_hgf True True 200 True empty_heap ! 3))
     = [x_range (plotted_figures two_node_hgf True True 200 True empty_heap ! 0)]"
proof -
  obtain col hp' where
    p: "plot_trajectories two_node_hgf True True 200 True empty_heap = Inr (col, hp')"
    using returns_two_node_hgf by blast
  have pf: "plotted_figures two_node_hgf True True 200 True empty_heap = chart_figures col"
    using p by (rule plotted_figures_eq)
  note t = charts_share_x_range [OF p, unfolded count_two_node_hgf]
  note t1 = t [THEN conjunct2, THEN conjunct1]
  note t2 = t [THEN conjunct2, THEN conjunct2, THEN conjunct1]
  note t4 = t [THEN conjunct2, THEN conjunct2, THEN conjunct2, THEN conjunct2, THEN mp,
      OF TrueI, THEN conjunct1]
  have three: "Suc 2 = (3::nat)" by simp
  from t1 have a: "length (chart_figures col) = 4"
    by simp
  from t2 have b1: "x_range (chart_figures col ! 1) = x_range (chart_figures col ! 0)"
    by (rule allE [of _ 1]) simp
  from t2 have b2: "x_range (chart_figures col ! 2) = x_range (chart_figures col ! 0)"
    by (rule allE [of _ 2]) simp
  show ?thesis
    unfolding pf using a b1 b2 t4 [unfolded three] by (intro conjI)
qed

section \<open>Order of the figures and the input observations\<close>

lemma node_col_not_observation: "node_col i sfx \<noteq> ''observation''"
  by (simp add: node_col_def)

lemma draws_observation_node:
  assumes "renderers f = node_renderers h ci sf i color"
  shows "draws_observation f \<longleftrightarrow>
           i = 1 \<and> (model_type h = ''continuous'' \<or> model_type h = ''binary'')"
  unfolding draws_observation_def assms node_renderers_def input_glyphs_def mean_line_def
    band_def surprise_line_def surprise_area_def
  by (auto simp: glyph_ys_def node_col_not_observation node_col_not_observation [symmetric])

lemma draws_observation_surprise:
  assumes "surprise_fig_ok h fs xr sp"
  shows "\<not> draws_observation sp"
  using assms by (simp add: surprise_fig_ok_def draws_observation_def glyph_ys_def)

lemma draws_observation_selector:
  assumes "selector_ok fs xr yr sel"
  shows "draws_observation sel"
  using assms by (simp add: selector_ok_def draws_observation_def glyph_ys_def)

lemma title_of_node:
  assumes "node_fig_ok h ci sf fs i p hpf f"
  shows "title_of f = Some (PStr (''Node '' @ str_nat i))"
  using assms by (simp add: node_fig_ok_def node_kwargs_def title_of_def)
text \<open>
  C10, as the code has it. The node figures come in descending node order: the child at
  index \<open>j\<close> below \<open>n_nodes\<close> is the figure of node \<open>n_nodes - j\<close>, so node 1 is
  just above the global surprise figure at index \<open>n_nodes\<close>. Among the node figures and
  the global surprise figure, the input observations are drawn on the node-1 figure only
  (and there for a continuous or a binary model); with \<^verbatim>\<open>slider\<close> true the selection strip
  draws the observations as well. The column has \<open>n_nodes + 2\<close> children with
  \<^verbatim>\<open>slider\<close> true and \<open>n_nodes + 1\<close> otherwise.
\<close>

theorem figures_in_descending_order:
  assumes "plot_trajectories h ci sf fs sl hp0 = Inr (col, hp')"
  shows "col = Column (map Fig (chart_figures col)) [(''sizing_mode'', PStr ''stretch_width'')] \<and>
         length (chart_figures col) = count_nodes (to_pandas h) + (if sl then 2 else 1) \<and>
         (\<forall>j<count_nodes (to_pandas h).
            title_of (chart_figures col ! j)
              = Some (PStr (''Node '' @ str_nat (count_nodes (to_pandas h) - j)))) \<and>
         title_of (chart_figures col ! count_nodes (to_pandas h))
           = Some (PFmt [Lit ''Global surprise: '', Rounded (surprise h) 2]) \<and>
         (\<forall>j\<le>count_nodes (to_pandas h).
            draws_observation (chart_figures col ! j) \<longleftrightarrow>
              count_nodes (to_pandas h) - j = 1 \<and>
              (model_type h = ''continuous'' \<or> model_type h = ''binary'')) \<and>
         (sl \<longrightarrow>
            title_of (chart_figures col ! Suc (count_nodes (to_pandas h)))
              = Some (PStr ''Select the time range'') \<and>
            draws_observation (chart_figures col ! Suc (count_nodes (to_pandas h))))"
proof -
  let ?n = "count_nodes (to_pandas h)"
  from plot_trajectories_Inr [OF assms] obtain figs0 sp0 sel0 where
    col: "col = Column (map Fig (figs0 @ sp0 # (if sl then [sel0] else []))) column_kwargs"
    by blast
  from chart_figures_plot [OF assms] obtain figs sp sel where
    cf: "chart_figures col = figs @ sp # (if sl then [sel] else [])" and
    len: "length figs = ?n" and pos: "0 < ?n" and
    oks: "\<forall>j<?n. node_fig_ok h ci sf fs (?n - j) j hp' (figs ! j)" and
    spok: "surprise_fig_ok h fs (next_ref hp0) sp" and
    selok: "sl \<longrightarrow> selector_ok fs (next_ref hp0) (y_range (last figs)) sel"
    by blast
  have cf0: "chart_figures col = figs0 @ sp0 # (if sl then [sel0] else [])"
    unfolding col by (rule chart_figures_map_Fig)
  have c0: "col = Column (map Fig (chart_figures col)) [(''sizing_mode'', PStr ''stretch_width'')]"
    unfolding cf0 using col by (simp only: column_kwargs_def)
  have c1: "length (chart_figures col) = ?n + (if sl then 2 else 1)"
    by (simp add: cf len)
  have node: "chart_figures col ! j = figs ! j" if "j < ?n" for j
    using that len by (simp add: cf nth_append)
  have nth_sp: "chart_figures col ! ?n = sp"
    using len by (simp add: cf nth_append)
  have nth_sel: "chart_figures col ! Suc ?n = sel" if sl
    using that len by (simp add: cf nth_append)
  have c2: "\<forall>j<?n. title_of (chart_figures col ! j) = Some (PStr (''Node '' @ str_nat (?n - j)))"
  proof (intro allI impI)
    fix j assume j: "j < ?n"
    with oks have "node_fig_ok h ci sf fs (?n - j) j hp' (figs ! j)" by simp
    from title_of_node [OF this] j show
      "title_of (chart_figures col ! j) = Some (PStr (''Node '' @ str_nat (?n - j)))"
      by (simp add: node)
  qed
  have c3: "title_of (chart_figures col ! ?n)
      = Some (PFmt [Lit ''Global surprise: '', Rounded (surprise h) 2])"
    using spok by (simp add: nth_sp surprise_fig_ok_def surprise_kwargs_def title_of_def)
  have c4: "\<forall>j\<le>?n. draws_observation (chart_figures col ! j) \<longleftrightarrow>
      ?n - j = 1 \<and> (model_type h = ''continuous'' \<or> model_type h = ''binary'')"
  proof (intro allI impI)
    fix j assume j: "j \<le> ?n"
    show "draws_observation (chart_figures col ! j) \<longleftrightarrow>
      ?n - j = 1 \<and> (model_type h = ''continuous'' \<or> model_type h = ''binary'')"
    proof (cases "j < ?n")
      case True
      with oks have "renderers (figs ! j) = node_renderers h ci sf (?n - j) (PPalette (j mod 5))"
        by (simp add: node_fig_ok_def)
      from draws_observation_node [OF this] True show ?thesis
        by (simp add: node)
    next
      case False
      with j have "j = ?n" by simp
      with draws_observation_surprise [OF spok] show ?thesis
        by (simp add: nth_sp)
    qed
  qed
  have c5: "title_of (chart_figures col ! Suc ?n) = Some (PStr ''Select the time range'')" if sl
    using that selok by (simp add: nth_sel selector_ok_def select_kwargs_def title_of_def)
  have c6: "draws_observation (chart_figures col ! Suc ?n)" if sl
    using that selok by (auto simp: nth_sel intro: draws_observation_selector)
  from c0 c1 c2 c3 c4 c5 c6 show ?thesis
    by blast
qed

theorem figures_in_descending_order_witness:
  "length (plotted_figures two_node_hgf True True 200 True empty_heap) = 4 \<and>
   title_of (plotted_figures two_node_hgf True True 200 True empty_heap ! 0)
     = Some (PStr ''Node 2'') \<and>
   title_of (plotted_figures two_node_hgf True True 200 True empty_heap ! 1)
     = Some (PStr ''Node 1'') \<and>
   \<not> draws_observation (plotted_figures two_node_hgf True True 200 True empty_heap ! 0) \<and>
   draws_observation (plotted_figures two_node_hgf True True 200 True empty_heap ! 1) \<and>
   \<not> draws_observation (plotted_figures two_node_hgf True True 200 True empty_heap ! 2) \<and>
   draws_observation (plotted_figures two_node_hgf True True 200 True empty_heap ! 3)"
proof -
  obtain col hp' where
    p: "plot_trajectories two_node_hgf True True 200 True empty_heap = Inr (col, hp')"
    using returns_two_node_hgf by blast
  have pf: "plotted_figures two_node_hgf True True 200 True empty_heap = chart_figures col"
    using p by (rule plotted_figures_eq)
  have mt: "model_type two_node_hgf = ''continuous''"
    by (simp add: two_node_hgf_def)
  have three: "Suc 2 = (3::nat)" by simp
  note t = figures_in_descending_order [OF p, unfolded count_two_node_hgf]
  note t1 = t [THEN conjunct2, THEN conjunct1]
  note t2 = t [THEN conjunct2, THEN conjunct2, THEN conjunct1]
  note t4 = t [THEN conjunct2, THEN conjunct2, THEN conjunct2, THEN conjunct2, THEN conjunct1]
  note t5 = t [THEN conjunct2, THEN conjunct2, THEN conjunct2, THEN conjunct2, THEN conjunct2,
      THEN mp, OF TrueI, THEN conjunct2]
  from t1 have a: "length (chart_figures col) = 4"
    by simp
  from t2 have b0: "title_of (chart_figures col ! 0) = Some (PStr ''Node 2'')"
    by (rule allE [of _ 0]) (simp add: str_nat_2)
  from t2 have b1: "title_of (chart_figures col ! 1) = Some (PStr ''Node 1'')"
    by (rule allE [of _ 1]) (simp add: str_nat_Suc0)
  from t4 have d0: "\<not> draws_observation (chart_figures col ! 0)"
    by (rule allE [of _ 0]) simp
  from t4 have d1: "draws_observation (chart_figures col ! 1)"
    by (rule allE [of _ 1]) (simp add: mt)
  from t4 have d2: "\<not> draws_observation (chart_figures col ! 2)"
    by (rule allE [of _ 2]) simp
  show ?thesis
    unfolding pf using a b0 b1 d0 d1 d2 t5 [unfolded three] by (intro conjI)
qed

text \<open>
  The claim as it was stated, "the raw input observations are drawn only on the node-1
  figure", does not hold of the whole column: for the two-node model with \<^verbatim>\<open>slider\<close> true
  the fourth child is the selection strip, not the figure of node 1, and it draws the
  observations.
\<close>

theorem observations_only_on_node_1_counterexample:
  "length (plotted_figures two_node_hgf True True 200 True empty_heap) = 4 \<and>
   title_of (plotted_figures two_node_hgf True True 200 True empty_heap ! 1)
     = Some (PStr ''Node 1'') \<and>
   title_of (plotted_figures two_node_hgf True True 200 True empty_heap ! 3)
     = Some (PStr ''Select the time range'') \<and>
   draws_observation (plotted_figures two_node_hgf True True 200 True empty_heap ! 3)"
  by code_simp

section \<open>What each node figure shows\<close>







section \<open>A concrete run of the application\<close>

lemma demo_fit:
  assumes "o1 \<noteq> 5"
  shows "\<exists>col. fst (fit_hgf demo_lib ts o1 o2 m1 m2 w) = Inr col"
proof -
  let ?fitted = "\<lparr>to_pandas = to_pandas two_node_hgf, model_type = ''continuous'',
                   surprise = 12.5\<rparr>"
  have "well_formed ?fitted"
    using well_formed_two_node_hgf by (simp add: well_formed_def)
  from plot_trajectories_returns [OF this, of True True 200 True "store w"]
  obtain col hp' where "plot_trajectories ?fitted True True 200 True (store w) = Inr (col, hp')"
    by (auto simp: returns_def)
  with assms show ?thesis
    by (simp add: fit_hgf_unfold Let_def demo_lib_def fit_args_def)
qed

lemma demo_fit_fails:
  "fst (fit_hgf demo_lib ts 5 o2 m1 m2 w) = Inl (LibraryError ''invalid parameters'')"
  by (simp add: fit_hgf_unfold Let_def demo_lib_def fit_args_def)

lemma startup_demo: "startup demo_lib = Inr demo_app"
proof -
  let ?w0 = "\<lparr>store = \<lparr>next_ref = 0, ranges = Map.empty\<rparr>,
               lib_calls = [Call_load_data ''continuous'']\<rparr>"
  let ?fit = "fit_hgf demo_lib [1, 2, 3] (s_value (registered S1))
      (s_value (registered S2)) (s_value (registered S3)) (s_value (registered S4)) ?w0"
  have ld: "load_data demo_lib ''continuous'' = Inr [1, 2, 3]"
    by (simp add: demo_lib_def)
  have v1: "s_value (registered S1) = - 4"
    by (simp add: registered_def register_on_change_def created_slider_def slider1_def)
  from demo_fit [of "- 4" "[1, 2, 3]" "s_value (registered S2)" "s_value (registered S3)"
      "s_value (registered S4)" ?w0]
  obtain col where c: "fst ?fit = Inr col"
    by (auto simp: v1)
  obtain r w where fit: "?fit = (r, w)" by (cases ?fit)
  with c have r: "r = Inr col" by simp
  have "\<not> isl (startup demo_lib)"
    unfolding startup_def ld bind_err_Inr Let_def
    by (simp add: fit [unfolded registered_def r])
  then show ?thesis
    by (simp add: demo_app_def)
qed

lemma demo_inv: "app_inv demo_lib (run_events demo_lib evs demo_app)"
  using startup_demo by (rule reachable_inv)

lemma startup_sliders:
  assumes "startup lib = Inr st"
  shows "sliders st = registered"
proof -
  let ?w0 = "\<lparr>store = \<lparr>next_ref = 0, ranges = Map.empty\<rparr>,
               lib_calls = [Call_load_data ''continuous'']\<rparr>"
  from assms obtain ts where ld: "load_data lib ''continuous'' = Inr ts"
    by (auto simp: startup_def bind_err_eq_Inr)
  let ?fit = "fit_hgf lib ts (s_value (registered S1)) (s_value (registered S2))
                (s_value (registered S3)) (s_value (registered S4)) ?w0"
  obtain r w where fit: "?fit = (r, w)" by (cases ?fit)
  from assms ld fit obtain col where
    "st = \<lparr>timeseries = ts, dropdown_state = dropdown, sliders = registered,
              layout = Column [div_widget, widgets, col] [],
              doc_title = ''The Hierarchical Gaussian Filter'', world = w\<rparr>"
    by (cases r) (auto simp: startup_def Let_def registered_def [abs_def])
  then show ?thesis by simp
qed

lemma demo_values:
  "s_value (sliders demo_app S1) = - 4" "s_value (sliders demo_app S2) = - 4"
  "s_value (sliders demo_app S3) = 1.04" "s_value (sliders demo_app S4) = 0"
  unfolding startup_sliders [OF startup_demo]
  by (simp_all add: registered_def register_on_change_def created_slider_def
        slider1_def slider2_def slider3_def slider4_def)

section \<open>The sliders\<close>

lemma inv_slider_fields:
  assumes "app_inv lib st"
  shows "s_start (sliders st sid) = s_start (created_slider sid) \<and>
         s_end (sliders st sid) = s_end (created_slider sid) \<and>
         s_step (sliders st sid) = s_step (created_slider sid) \<and>
         s_title (sliders st sid) = s_title (created_slider sid)"
proof -
  from assms have a: "sliders st sid = (registered sid)\<lparr>s_value := s_value (sliders st sid)\<rparr>"
    by (simp add: app_inv_def)
  show ?thesis
    by (subst a, subst a, subst a, subst a)
       (simp add: registered_def register_on_change_def)
qed

text \<open>
  C6. The four sliders have the stated ranges: Omega 1 and Omega 2 run over \<open>[-20, 5]\<close>,
  Mu 1 and Mu 2 over \<open>[-20, 20]\<close>, each with step 0.1; and in every state that the
  application reaches, whatever the events, each slider still has the range, step and
  title it was created with.
\<close>

theorem slider_ranges:
  "(s_title slider1 = ''Omega 1'' \<and> s_start slider1 = - 20 \<and> s_end slider1 = 5 \<and>
    s_step slider1 = 0.1) \<and>
   (s_title slider2 = ''Omega 2'' \<and> s_start slider2 = - 20 \<and> s_end slider2 = 5 \<and>
    s_step slider2 = 0.1) \<and>
   (s_title slider3 = ''Mu 1'' \<and> s_start slider3 = - 20 \<and> s_end slider3 = 20 \<and>
    s_step slider3 = 0.1) \<and>
   (s_title slider4 = ''Mu 2'' \<and> s_start slider4 = - 20 \<and> s_end slider4 = 20 \<and>
    s_step slider4 = 0.1) \<and>
   (startup lib = Inr st0 \<longrightarrow>
      s_title (sliders (run_events lib evs st0) S1) = ''Omega 1'' \<and>
      s_title (sliders (run_events lib evs st0) S2) = ''Omega 2'' \<and>
      s_title (sliders (run_events lib evs st0) S3) = ''Mu 1'' \<and>
      s_title (sliders (run_events lib evs st0) S4) = ''Mu 2'' \<and>
      (\<forall>sid. s_start (sliders (run_events lib evs st0) sid) = - 20 \<and>
             s_end (sliders (run_events lib evs st0) sid)
               = (if sid = S1 \<or> sid = S2 then 5 else 20) \<and>
             s_step (sliders (run_events lib evs st0) sid) = 0.1))"
proof -
  have created: "s_start (created_slider sid) = - 20 \<and>
      s_end (created_slider sid) = (if sid = S1 \<or> sid = S2 then 5 else 20) \<and>
      s_step (created_slider sid) = 0.1" for sid
    by (cases sid) (simp_all add: created_slider_def slider1_def slider2_def slider3_def slider4_def)
  have titles: "s_title (created_slider S1) = ''Omega 1''" "s_title (created_slider S2) = ''Omega 2''"
    "s_title (created_slider S3) = ''Mu 1''" "s_title (created_slider S4) = ''Mu 2''"
    by (simp_all add: created_slider_def slider1_def slider2_def slider3_def slider4_def)
  have run: "s_title (sliders (run_events lib evs st0) S1) = ''Omega 1'' \<and>
      s_title (sliders (run_events lib evs st0) S2) = ''Omega 2'' \<and>
      s_title (sliders (run_events lib evs st0) S3) = ''Mu 1'' \<and>
      s_title (sliders (run_events lib evs st0) S4) = ''Mu 2'' \<and>
      (\<forall>sid. s_start (sliders (run_events lib evs st0) sid) = - 20 \<and>
             s_end (sliders (run_events lib evs st0) sid)
               = (if sid = S1 \<or> sid = S2 then 5 else 20) \<and>
             s_step (sliders (run_events lib evs st0) sid) = 0.1)"
    if "startup lib = Inr st0"
  proof -
    note f = inv_slider_fields [OF reachable_inv [OF that, of evs]]
    show ?thesis
      by (simp only: f titles created) simp
  qed
  have fixed: "(s_title slider1 = ''Omega 1'' \<and> s_start slider1 = - 20 \<and> s_end slider1 = 5 \<and>
    s_step slider1 = 0.1) \<and>
   (s_title slider2 = ''Omega 2'' \<and> s_start slider2 = - 20 \<and> s_end slider2 = 5 \<and>
    s_step slider2 = 0.1) \<and>
   (s_title slider3 = ''Mu 1'' \<and> s_start slider3 = - 20 \<and> s_end slider3 = 20 \<and>
    s_step slider3 = 0.1) \<and>
   (s_title slider4 = ''Mu 2'' \<and> s_start slider4 = - 20 \<and> s_end slider4 = 20 \<and>
    s_step slider4 = 0.1)"
    by (simp add: slider1_def slider2_def slider3_def slider4_def)
  from fixed run show ?thesis
    by blast
qed

theorem slider_ranges_witness:
  "startup demo_lib = Inr demo_app \<and>
   s_title (sliders (run_events demo_lib [SliderMoved S1 2, SliderMoved S3 7] demo_app) S1)
     = ''Omega 1'' \<and>
   s_start (sliders (run_events demo_lib [SliderMoved S1 2, SliderMoved S3 7] demo_app) S1)
     = - 20 \<and>
   s_end (sliders (run_events demo_lib [SliderMoved S1 2, SliderMoved S3 7] demo_app) S1) = 5 \<and>
   s_end (sliders (run_events demo_lib [SliderMoved S1 2, SliderMoved S3 7] demo_app) S3) = 20 \<and>
   s_step (sliders (run_events demo_lib [SliderMoved S1 2, SliderMoved S3 7] demo_app) S3) = 0.1"
proof -
  note t = slider_ranges [of demo_lib demo_app "[SliderMoved S1 2, SliderMoved S3 7]",
      THEN conjunct2, THEN conjunct2, THEN conjunct2, THEN conjunct2, THEN mp, OF startup_demo]
  note t1 = t [THEN conjunct1]
  note t5 = t [THEN conjunct2, THEN conjunct2, THEN conjunct2, THEN conjunct2]
  from t5 have a: "s_start (sliders (run_events demo_lib [SliderMoved S1 2, SliderMoved S3 7] demo_app) S1)
     = - 20 \<and>
     s_end (sliders (run_events demo_lib [SliderMoved S1 2, SliderMoved S3 7] demo_app) S1) = 5"
    by (rule allE [of _ S1]) simp
  from t5 have b: "s_end (sliders (run_events demo_lib [SliderMoved S1 2, SliderMoved S3 7] demo_app) S3) = 20 \<and>
   s_step (sliders (run_events demo_lib [SliderMoved S1 2, SliderMoved S3 7] demo_app) S3) = 0.1"
    by (rule allE [of _ S3]) simp
  from startup_demo t1 a b show ?thesis
    by (intro conjI) simp_all
qed

section \<open>A slider event\<close>

lemma inv_layout:
  assumes "app_inv lib st"
  shows "\<exists>old. layout st = Column [div_widget, widgets, old] []"
  using assms by (auto simp: app_inv_def)

lemma slider_event:
  assumes "app_inv lib st" and "v \<noteq> s_value (sliders st sid)"
  shows "handle_event lib (SliderMoved sid v) st =
           (case fit_now lib (moved sid v st) of
              (Inl e, w) \<Rightarrow> (Inl e, (moved sid v st)\<lparr>world := w\<rparr>)
            | (Inr col, w) \<Rightarrow>
                (Inr (), (moved sid v st)\<lparr>world := w,
                           layout := Column [div_widget, widgets, col] []\<rparr>))"
proof -
  from inv_layout [OF assms(1)] obtain old where
    "layout st = Column [div_widget, widgets, old] []" by blast
  then have lay: "layout (moved sid v st) = Column [div_widget, widgets, old] []"
    by (simp add: moved_def)
  show ?thesis
    using assms(2)
    by (simp add: handle_event_def set_slider_value_unfold [OF assms(1)] on_change_three [OF lay])
qed

lemma slider_event_result:
  assumes "app_inv lib st" and "v \<noteq> s_value (sliders st sid)"
  shows "sliders (snd (handle_event lib (SliderMoved sid v) st)) = sliders (moved sid v st) \<and>
         world (snd (handle_event lib (SliderMoved sid v) st)) = snd (fit_now lib (moved sid v st)) \<and>
         (case fst (fit_now lib (moved sid v st)) of
            Inr col \<Rightarrow> fst (handle_event lib (SliderMoved sid v) st) = Inr () \<and>
                       layout (snd (handle_event lib (SliderMoved sid v) st))
                         = Column [div_widget, widgets, col] []
          | Inl e \<Rightarrow> fst (handle_event lib (SliderMoved sid v) st) = Inl e \<and>
                     layout (snd (handle_event lib (SliderMoved sid v) st)) = layout st)"
proof -
  obtain r w where fit: "fit_now lib (moved sid v st) = (r, w)"
    by (cases "fit_now lib (moved sid v st)")
  have lay: "layout (moved sid v st) = layout st"
    by (simp add: moved_def)
  show ?thesis
    unfolding slider_event [OF assms] fit
    by (cases r) (simp_all add: lay)
qed

text \<open>
  C1. In every state the application reaches, a change of the \<^verbatim>\<open>value\<close> of any of the
  four sliders runs exactly the registered handler \<^verbatim>\<open>on_change\<close>. The handler calls
  \<^verbatim>\<open>fit_hgf\<close> with the current values of all four sliders, the changed one included, so
  the library's constructor is called with these omegas and mus. When the fit returns a
  plot column, the handler puts it in place of the third child of the root layout; the
  first child (the title) and the second (the widgets) stay as they are. When the fit
  raises, the layout is not touched.
\<close>

theorem slider_change_refits_and_replaces_plot:
  assumes "startup lib = Inr st0" and "st = run_events lib evs st0"
    and "v \<noteq> s_value (sliders st sid)"
    and "st1 = st\<lparr>sliders := (sliders st)(sid := (sliders st sid)\<lparr>s_value := v\<rparr>)\<rparr>"
    and "fit = fit_hgf lib (timeseries st) (s_value (sliders st1 S1)) (s_value (sliders st1 S2))
                 (s_value (sliders st1 S3)) (s_value (sliders st1 S4)) (world st)"
    and "res = handle_event lib (SliderMoved sid v) st"
  shows "callbacks_for ''value'' (s_callbacks (sliders st sid)) = [On_change] \<and>
         (\<exists>old. layout st = Column [div_widget, widgets, old] []) \<and>
         sliders (snd res) = sliders st1 \<and>
         world (snd res) = snd fit \<and>
         (\<exists>a rest. lib_calls (snd fit) = lib_calls (world st) @ Call_HGF a # rest \<and>
            omega a = [''1'' \<mapsto> s_value (sliders st1 S1), ''2'' \<mapsto> s_value (sliders st1 S2)] \<and>
            initial_mu a
              = [''1'' \<mapsto> s_value (sliders st1 S3), ''2'' \<mapsto> s_value (sliders st1 S4)]) \<and>
         (case fst fit of
            Inr col \<Rightarrow> fst res = Inr () \<and> layout (snd res) = Column [div_widget, widgets, col] []
          | Inl e \<Rightarrow> fst res = Inl e \<and> layout (snd res) = layout st)"
proof -
  have inv: "app_inv lib st"
    unfolding assms(2) using assms(1) by (rule reachable_inv)
  have st1: "st1 = moved sid v st"
    by (simp add: assms(4) moved_def)
  have fit: "fit = fit_now lib (moved sid v st)"
    by (simp add: assms(5) st1 fit_now_def moved_def)
  note r = slider_event_result [OF inv assms(3), folded assms(6) fit st1]
  have calls: "\<exists>a rest. lib_calls (snd fit) = lib_calls (world st) @ Call_HGF a # rest \<and>
            omega a = [''1'' \<mapsto> s_value (sliders st1 S1), ''2'' \<mapsto> s_value (sliders st1 S2)] \<and>
            initial_mu a
              = [''1'' \<mapsto> s_value (sliders st1 S3), ''2'' \<mapsto> s_value (sliders st1 S4)]"
    unfolding assms(5) fit_hgf_calls
    by (intro exI [of _ "fit_args (s_value (sliders st1 S1)) (s_value (sliders st1 S2))
          (s_value (sliders st1 S3)) (s_value (sliders st1 S4))"] exI conjI)
       (simp_all add: fit_args_def)
  from inv_callbacks [OF inv, of sid] inv_layout [OF inv] r calls show ?thesis
    by blast
qed

theorem slider_change_refits_and_replaces_plot_witness:
  "startup demo_lib = Inr demo_app \<and>
   fst (handle_event demo_lib (SliderMoved S2 (- 3)) demo_app) = Inr () \<and>
   s_value (sliders (snd (handle_event demo_lib (SliderMoved S2 (- 3)) demo_app)) S2) = - 3 \<and>
   s_value (sliders (snd (handle_event demo_lib (SliderMoved S2 (- 3)) demo_app)) S1) = - 4 \<and>
   (\<exists>col. layout (snd (handle_event demo_lib (SliderMoved S2 (- 3)) demo_app))
            = Column [div_widget, widgets, col] [])"
proof -
  let ?st1 = "demo_app\<lparr>sliders := (sliders demo_app)(S2 := (sliders demo_app S2)\<lparr>s_value := - 3\<rparr>)\<rparr>"
  let ?fit = "fit_hgf demo_lib (timeseries demo_app) (s_value (sliders ?st1 S1))
      (s_value (sliders ?st1 S2)) (s_value (sliders ?st1 S3)) (s_value (sliders ?st1 S4))
      (world demo_app)"
  let ?res = "handle_event demo_lib (SliderMoved S2 (- 3)) demo_app"
  have run: "demo_app = run_events demo_lib [] demo_app" by simp
  have neq: "- 3 \<noteq> s_value (sliders demo_app S2)" by (simp add: demo_values)
  note t = slider_change_refits_and_replaces_plot [OF startup_demo run neq refl refl refl]
  note t3 = t [THEN conjunct2, THEN conjunct2, THEN conjunct1]
  note t6 = t [THEN conjunct2, THEN conjunct2, THEN conjunct2, THEN conjunct2, THEN conjunct2]
  have "s_value (sliders ?st1 S1) \<noteq> 5" by (simp add: demo_values)
  from demo_fit [OF this] obtain col where c: "fst ?fit = Inr col" by blast
  from t6 have ok: "fst ?res = Inr ()" and lay: "layout (snd ?res) = Column [div_widget, widgets, col] []"
    unfolding c by simp_all
  have v2: "s_value (sliders (snd ?res) S2) = - 3" and v1: "s_value (sliders (snd ?res) S1) = - 4"
    unfolding t3 by (simp_all add: demo_values)
  from startup_demo ok v2 v1 lay show ?thesis
    by blast
qed

section \<open>The dropdown\<close>

lemma fit_now_dropdown: "fit_now lib (st\<lparr>dropdown_state := d\<rparr>) = fit_now lib st"
  by (simp add: fit_now_def)

lemma on_change_dropdown:
  "on_change lib a old new (st\<lparr>dropdown_state := d\<rparr>) =
     (fst (on_change lib a old new st), (snd (on_change lib a old new st))\<lparr>dropdown_state := d\<rparr>)"
  by (simp add: on_change_def split: prod.splits sum.splits node.splits)

lemma run_callbacks_dropdown:
  "run_callbacks lib cs a old new (st\<lparr>dropdown_state := d\<rparr>) =
     (fst (run_callbacks lib cs a old new st),
      (snd (run_callbacks lib cs a old new st))\<lparr>dropdown_state := d\<rparr>)"
proof (induction cs arbitrary: st)
  case Nil
  show ?case by simp
next
  case (Cons c cs)
  obtain r st' where oc: "on_change lib a old new st = (r, st')"
    by (cases "on_change lib a old new st")
  have c: "c = On_change" by (cases c) simp
  show ?case
    by (cases r) (simp_all add: c on_change_dropdown oc Cons.IH)
qed

lemma set_slider_value_dropdown:
  "set_slider_value lib sid v (st\<lparr>dropdown_state := d\<rparr>) =
     (fst (set_slider_value lib sid v st),
      (snd (set_slider_value lib sid v st))\<lparr>dropdown_state := d\<rparr>)"
proof -
  have eq: "st\<lparr>dropdown_state := d,
               sliders := (sliders st)(sid := (sliders st sid)\<lparr>s_value := v\<rparr>)\<rparr>
          = st\<lparr>sliders := (sliders st)(sid := (sliders st sid)\<lparr>s_value := v\<rparr>)\<rparr>
              \<lparr>dropdown_state := d\<rparr>"
    by simp
  show ?thesis
    by (simp add: set_slider_value_def Let_def eq run_callbacks_dropdown del: app.update_convs)
qed

lemma run_events_without_clicks:
  assumes "app_inv lib st"
  shows "run_events lib (filter (\<lambda>ev. case ev of DropdownClicked item \<Rightarrow> False | _ \<Rightarrow> True) evs) st
           = run_events lib evs st"
  using assms
proof (induction evs arbitrary: st)
  case Nil
  show ?case by simp
next
  case (Cons ev evs)
  show ?case
  proof (cases ev)
    case (SliderMoved sid v)
    from handle_event_inv [OF Cons.prems, of ev] show ?thesis
      by (simp add: SliderMoved Cons.IH)
  next
    case (DropdownClicked item)
    have "handle_event lib ev st = (Inr (), st)"
      by (simp add: DropdownClicked handle_event_def click_dropdown_unfold [OF Cons.prems])
    with Cons.prems show ?thesis
      by (simp add: DropdownClicked Cons.IH)
  qed
qed

lemma inv_model_type:
  assumes "app_inv lib st" and "Call_HGF a \<in> set (lib_calls (world st))"
  shows "arg_model_type a = ''continuous''"
proof -
  from assms(1) obtain rest where
    calls: "lib_calls (world st) = Call_load_data ''continuous'' # rest" and
    ok: "list_all (later_call_ok (timeseries st)) rest"
    by (auto simp: app_inv_def)
  from assms(2) calls have "Call_HGF a \<in> set rest" by simp
  with ok have "later_call_ok (timeseries st) (Call_HGF a)"
    by (simp add: list_all_iff)
  then show ?thesis
    by (auto simp: later_call_ok_def fit_args_def)
qed

text \<open>
  C4. The dropdown, with the options Binary and Continuous, is not wired to the fit. In
  every state the application reaches no callback is registered on it, so a click on one
  of its items changes nothing; every call of the model constructor has
  \<^verbatim>\<open>model_type="continuous"\<close>; a slider event gives the same result, the same layout and the
  same calls of the library whatever the state of the dropdown is; and a run gives the same
  state as the run with the clicks on the dropdown left out.
\<close>

theorem dropdown_not_wired:
  assumes "startup lib = Inr st0" and "st = run_events lib evs st0"
  shows "d_menu (dropdown_state st) = [(''Binary'', ''binary''), (''Continuous'', ''continuous'')] \<and>
         d_callbacks (dropdown_state st) = [] \<and>
         handle_event lib (DropdownClicked item) st = (Inr (), st) \<and>
         (\<forall>a. Call_HGF a \<in> set (lib_calls (world st)) \<longrightarrow> arg_model_type a = ''continuous'') \<and>
         (\<forall>d. handle_event lib (SliderMoved sid v) (st\<lparr>dropdown_state := d\<rparr>) =
                (fst (handle_event lib (SliderMoved sid v) st),
                 (snd (handle_event lib (SliderMoved sid v) st))\<lparr>dropdown_state := d\<rparr>)) \<and>
         run_events lib
             (filter (\<lambda>ev. case ev of DropdownClicked item \<Rightarrow> False | _ \<Rightarrow> True) evs) st0
           = st"
proof -
  have inv: "app_inv lib st"
    unfolding assms(2) using assms(1) by (rule reachable_inv)
  have inv0: "app_inv lib st0"
    using assms(1) by (rule startup_inv)
  from inv have dd: "dropdown_state st = dropdown"
    by (simp add: app_inv_def)
  have c1: "d_menu (dropdown_state st) = [(''Binary'', ''binary''), (''Continuous'', ''continuous'')]"
    and c2: "d_callbacks (dropdown_state st) = []"
    by (simp_all add: dd dropdown_def menu_def)
  have c3: "handle_event lib (DropdownClicked item) st = (Inr (), st)"
    by (simp add: handle_event_def click_dropdown_unfold [OF inv])
  have c4: "\<forall>a. Call_HGF a \<in> set (lib_calls (world st)) \<longrightarrow> arg_model_type a = ''continuous''"
    using inv_model_type [OF inv] by blast
  have c5: "\<forall>d. handle_event lib (SliderMoved sid v) (st\<lparr>dropdown_state := d\<rparr>) =
                (fst (handle_event lib (SliderMoved sid v) st),
                 (snd (handle_event lib (SliderMoved sid v) st))\<lparr>dropdown_state := d\<rparr>)"
    by (simp add: handle_event_def set_slider_value_dropdown)
  have c6: "run_events lib
             (filter (\<lambda>ev. case ev of DropdownClicked item \<Rightarrow> False | _ \<Rightarrow> True) evs) st0
           = st"
    unfolding assms(2) using inv0 by (rule run_events_without_clicks)
  from c1 c2 c3 c4 c5 c6 show ?thesis
    by blast
qed

theorem dropdown_not_wired_witness:
  "startup demo_lib = Inr demo_app \<and>
   d_callbacks (dropdown_state
      (run_events demo_lib [DropdownClicked ''binary'', SliderMoved S2 (- 3)] demo_app)) = [] \<and>
   handle_event demo_lib (DropdownClicked ''binary'')
       (run_events demo_lib [DropdownClicked ''binary'', SliderMoved S2 (- 3)] demo_app)
     = (Inr (), run_events demo_lib [DropdownClicked ''binary'', SliderMoved S2 (- 3)] demo_app) \<and>
   run_events demo_lib [SliderMoved S2 (- 3)] demo_app
     = run_events demo_lib [DropdownClicked ''binary'', SliderMoved S2 (- 3)] demo_app"
proof -
  note t = dropdown_not_wired [OF startup_demo refl,
      of "[DropdownClicked ''binary'', SliderMoved S2 (- 3)]" "''binary''"]
  note t2 = t [THEN conjunct2, THEN conjunct1]
  note t3 = t [THEN conjunct2, THEN conjunct2, THEN conjunct1]
  note t6 = t [THEN conjunct2, THEN conjunct2, THEN conjunct2, THEN conjunct2, THEN conjunct2]
  have f: "filter (\<lambda>ev. case ev of DropdownClicked item \<Rightarrow> False | _ \<Rightarrow> True)
      [DropdownClicked ''binary'', SliderMoved S2 (- 3)] = [SliderMoved S2 (- 3)]"
    by simp
  from startup_demo t2 t3 t6 [unfolded f] show ?thesis
    by (intro conjI)
qed

section \<open>What the fit is called with\<close>

lemma fit_args_fixed:
  "n_levels (fit_args o1 o2 m1 m2) = 2 \<and>
   arg_model_type (fit_args o1 o2 m1 m2) = ''continuous'' \<and>
   initial_pi (fit_args o1 o2 m1 m2) = [''1'' \<mapsto> 100, ''2'' \<mapsto> 10] \<and>
   rho (fit_args o1 o2 m1 m2) = [''1'' \<mapsto> 0, ''2'' \<mapsto> 0] \<and>
   kappas (fit_args o1 o2 m1 m2) = [''1'' \<mapsto> 1] \<and>
   verbose (fit_args o1 o2 m1 m2) = False \<and>
   omega (fit_args o1 o2 m1 m2) = [''1'' \<mapsto> o1, ''2'' \<mapsto> o2] \<and>
   initial_mu (fit_args o1 o2 m1 m2) = [''1'' \<mapsto> m1, ''2'' \<mapsto> m2]"
  by (simp add: fit_args_def)

lemma inv_same_data:
  assumes "app_inv lib st" and "app_inv lib st'"
  shows "timeseries st' = timeseries st"
  using assms by (simp add: app_inv_def)

text \<open>
  C7. Across every call of the fit only the omegas and the initial means vary. In every
  state the application reaches, the sample data were loaded once, first of all calls of
  the library and under the name \<^verbatim>\<open>continuous\<close>; every later call of the constructor has
  \<^verbatim>\<open>n_levels=2\<close>, \<^verbatim>\<open>initial_pi={"1": 1e2, "2": 1e1}\<close>, \<^verbatim>\<open>rho={"1": 0.0, "2": 0.0}\<close>,
  \<^verbatim>\<open>kappas={"1": 1.0}\<close>, \<^verbatim>\<open>model_type="continuous"\<close> and \<^verbatim>\<open>verbose=False\<close>, with omegas and
  initial means for the keys 1 and 2; and every call of \<^verbatim>\<open>input_data\<close> is fed the very time
  series that was loaded at the start.
\<close>

theorem fit_constants_and_data:
  assumes "startup lib = Inr st0" and "st = run_events lib evs st0"
  shows "load_data lib ''continuous'' = Inr (timeseries st0) \<and>
         timeseries st = timeseries st0 \<and>
         (\<exists>rest. lib_calls (world st) = Call_load_data ''continuous'' # rest \<and>
            (\<forall>c\<in>set rest.
               case c of
                 Call_load_data name \<Rightarrow> False
               | Call_HGF a \<Rightarrow>
                   n_levels a = 2 \<and> arg_model_type a = ''continuous'' \<and>
                   initial_pi a = [''1'' \<mapsto> 100, ''2'' \<mapsto> 10] \<and>
                   rho a = [''1'' \<mapsto> 0, ''2'' \<mapsto> 0] \<and>
                   kappas a = [''1'' \<mapsto> 1] \<and> verbose a = False \<and>
                   (\<exists>o1 o2 m1 m2. omega a = [''1'' \<mapsto> o1, ''2'' \<mapsto> o2] \<and>
                                  initial_mu a = [''1'' \<mapsto> m1, ''2'' \<mapsto> m2])
               | Call_input_data d \<Rightarrow> d = timeseries st0))"
proof -
  have inv: "app_inv lib st"
    unfolding assms(2) using assms(1) by (rule reachable_inv)
  have inv0: "app_inv lib st0"
    using assms(1) by (rule startup_inv)
  have ts: "timeseries st = timeseries st0"
    using inv0 inv by (rule inv_same_data)
  from inv0 have ld: "load_data lib ''continuous'' = Inr (timeseries st0)"
    by (simp add: app_inv_def)
  from inv obtain rest where
    calls: "lib_calls (world st) = Call_load_data ''continuous'' # rest" and
    ok: "list_all (later_call_ok (timeseries st)) rest"
    by (auto simp: app_inv_def)
  have each: "case c of
                 Call_load_data name \<Rightarrow> False
               | Call_HGF a \<Rightarrow>
                   n_levels a = 2 \<and> arg_model_type a = ''continuous'' \<and>
                   initial_pi a = [''1'' \<mapsto> 100, ''2'' \<mapsto> 10] \<and>
                   rho a = [''1'' \<mapsto> 0, ''2'' \<mapsto> 0] \<and>
                   kappas a = [''1'' \<mapsto> 1] \<and> verbose a = False \<and>
                   (\<exists>o1 o2 m1 m2. omega a = [''1'' \<mapsto> o1, ''2'' \<mapsto> o2] \<and>
                                  initial_mu a = [''1'' \<mapsto> m1, ''2'' \<mapsto> m2])
               | Call_input_data d \<Rightarrow> d = timeseries st0"
    if "c \<in> set rest" for c
  proof -
    from ok that have l: "later_call_ok (timeseries st) c"
      by (simp add: list_all_iff)
    show ?thesis
    proof (cases c)
      case (Call_load_data name)
      with l show ?thesis by (simp add: later_call_ok_def)
    next
      case (Call_HGF a)
      with l obtain o1 o2 m1 m2 where a: "a = fit_args o1 o2 m1 m2"
        by (auto simp: later_call_ok_def)
      from fit_args_fixed [of o1 o2 m1 m2] show ?thesis
        unfolding Call_HGF a by (simp only: lib_call.case) blast
    next
      case (Call_input_data d)
      with l ts show ?thesis by (simp add: later_call_ok_def)
    qed
  qed
  from ld ts calls each show ?thesis
    by blast
qed

theorem fit_constants_and_data_witness:
  "startup demo_lib = Inr demo_app \<and>
   load_data demo_lib ''continuous'' = Inr (timeseries demo_app) \<and>
   timeseries (run_events demo_lib [SliderMoved S2 (- 3), SliderMoved S1 5] demo_app)
     = timeseries demo_app \<and>
   (\<exists>rest. lib_calls (world (run_events demo_lib [SliderMoved S2 (- 3), SliderMoved S1 5]
                                demo_app))
            = Call_load_data ''continuous'' # rest)"
proof -
  note t = fit_constants_and_data [OF startup_demo refl,
      of "[SliderMoved S2 (- 3), SliderMoved S1 5]"]
  note t1 = t [THEN conjunct1]
  note t2 = t [THEN conjunct2, THEN conjunct1]
  note t3 = t [THEN conjunct2, THEN conjunct2]
  from t3 have c: "\<exists>rest. lib_calls (world (run_events demo_lib
      [SliderMoved S2 (- 3), SliderMoved S1 5] demo_app)) = Call_load_data ''continuous'' # rest"
    by blast
  from startup_demo t1 t2 c show ?thesis
    by (intro conjI)
qed

end
